theory Spec2Isabelle
  imports Main "HOL-Library.Sublist"
begin

section \<open>JavaScript values\<close>

text \<open>
  The gateway (\<^verbatim>\<open>index.js\<close> in its two revisions) and the notifier
  (\<^verbatim>\<open>sendNotifications.js\<close>) pass JSON-like JavaScript values between the HTTP
  request, the identity provider, the store client and the push client.  A value is
  \<^verbatim>\<open>undefined\<close>, \<^verbatim>\<open>null\<close>, a boolean, a number, a string, an object or an array.
  Strings are byte lists (UTF-8); numbers are the integers the code computes with.
\<close>

datatype jv =
    JUndefined
  | JNull
  | JBool bool
  | JNum int
  | JStr string
  | JObj "(string \<times> jv) list"
  | JArr "jv list"

type_synonym obj = "(string \<times> jv) list"

text \<open>JavaScript truthiness, as used by \<^verbatim>\<open>!x\<close>, \<^verbatim>\<open>a || b\<close> and \<^verbatim>\<open>filter(Boolean)\<close>.\<close>

fun truthy :: "jv \<Rightarrow> bool" where
  "truthy JUndefined = False"
| "truthy JNull = False"
| "truthy (JBool b) = b"
| "truthy (JNum n) = (n \<noteq> 0)"
| "truthy (JStr s) = (s \<noteq> [])"
| "truthy (JObj _) = True"
| "truthy (JArr _) = True"

text \<open>\<^verbatim>\<open>a || b\<close> and \<^verbatim>\<open>a ?? b\<close>.\<close>

definition js_or :: "jv \<Rightarrow> jv \<Rightarrow> jv" where
  "js_or a b = (if truthy a then a else b)"

definition js_nullish :: "jv \<Rightarrow> jv \<Rightarrow> jv" where
  "js_nullish a b = (if a = JUndefined \<or> a = JNull then b else a)"

text \<open>Property access \<^verbatim>\<open>o.k\<close> on an object: a missing key reads \<^verbatim>\<open>undefined\<close>.\<close>

definition js_get :: "obj \<Rightarrow> string \<Rightarrow> jv" where
  "js_get ob k = (case map_of ob k of Some v \<Rightarrow> v | None \<Rightarrow> JUndefined)"

text \<open>Decimal rendering of a number inside a template literal.\<close>

fun show_nat :: "nat \<Rightarrow> string" where
  "show_nat n =
     (if n < 10 then [''0123456789'' ! n]
      else show_nat (n div 10) @ [''0123456789'' ! (n mod 10)])"

declare show_nat.simps [simp del]

definition show_int :: "int \<Rightarrow> string" where
  "show_int i = (if i < 0 then CHR ''-'' # show_nat (nat (- i)) else show_nat (nat i))"

text \<open>
  String conversion of a value interpolated into a template literal; an array is its
  elements joined by commas, with nothing for a null or undefined element.
\<close>

fun join_with :: "string \<Rightarrow> string list \<Rightarrow> string" where
  "join_with sep [] = []"
| "join_with sep [x] = x"
| "join_with sep (x # y # ys) = x @ sep @ join_with sep (y # ys)"

fun to_str :: "jv \<Rightarrow> string" where
  "to_str JUndefined = ''undefined''"
| "to_str JNull = ''null''"
| "to_str (JBool b) = (if b then ''true'' else ''false'')"
| "to_str (JNum n) = show_int n"
| "to_str (JStr s) = s"
| "to_str (JObj _) = ''[object Object]''"
| "to_str (JArr xs) =
     join_with '','' (map (\<lambda>x. if x = JNull \<or> x = JUndefined then [] else to_str x) xs)"

text \<open>\<^verbatim>\<open>s.split(c)\<close> for a one-character separator: never the empty list.\<close>

fun split_on :: "char \<Rightarrow> string \<Rightarrow> string list" where
  "split_on c [] = [[]]"
| "split_on c (x # xs) =
     (if x = c then [] # split_on c xs
      else (case split_on c xs of [] \<Rightarrow> [[x]] | y # ys \<Rightarrow> (x # y) # ys))"

text \<open>Array indexing \<^verbatim>\<open>a[i]\<close>: out of range reads \<^verbatim>\<open>undefined\<close>.\<close>

definition js_index :: "string list \<Rightarrow> nat \<Rightarrow> jv" where
  "js_index xs i = (if i < length xs then JStr (xs ! i) else JUndefined)"

section \<open>The external store, as the client sees it\<close>

text \<open>
  The store is the managed database and object storage reached through the
  \<^verbatim>\<open>supabase\<close> client.  A row is a JSON object; keys the store assigns are strings.
  Every call is recorded in a trace, in the order the code issues it, whether or not the
  store then fails it.
\<close>

datatype tbl = Users | Vehicles | Documents | Devices | Reminders

type_synonym filters = "(string \<times> jv) list"

datatype call =
    Select tbl "string list" filters "string option"
  | SelectRange tbl "string list" string int int
  | Insert tbl obj
  | Upsert tbl obj string
  | Update tbl obj filters
  | Delete tbl filters
  | StorageUpload string string string

record message =
  title :: string
  text_body :: string
  tokens :: "jv list"

record world =
  rows :: "tbl \<Rightarrow> obj list"
  bucket :: "(string \<times> string) list"
  next_id :: nat
  trace :: "call list"
  sent :: "message list"
  warnings :: "string list"

text \<open>
  A downstream failure (network, constraint, missing column) is decided by a fault
  oracle: the call that fails is answered with an error object and has no effect.
\<close>

type_synonym faults = "call \<Rightarrow> obj option"

definition logged :: "call \<Rightarrow> world \<Rightarrow> world" where
  "logged c w = w\<lparr>trace := trace w @ [c]\<rparr>"

text \<open>The body sent to the store drops \<^verbatim>\<open>undefined\<close> properties (JSON serialisation).\<close>

definition payload :: "obj \<Rightarrow> obj" where
  "payload ob = filter (\<lambda>(k, v). v \<noteq> JUndefined) ob"

text \<open>\<^verbatim>\<open>.eq(column, value)\<close>: the column holds that value; nothing equals null.\<close>

definition matches :: "filters \<Rightarrow> obj \<Rightarrow> bool" where
  "matches fs r =
     list_all (\<lambda>(k, v). v \<noteq> JNull \<and> v \<noteq> JUndefined \<and> map_of r k = Some v) fs"

text \<open>\<^verbatim>\<open>.select(columns)\<close>: \<^verbatim>\<open>'*'\<close> keeps the row, a column list projects it.\<close>

definition project :: "string list \<Rightarrow> obj \<Rightarrow> obj" where
  "project cols r = (if cols = [''*''] then r else filter (\<lambda>(k, v). k \<in> set cols) r)"

text \<open>\<^verbatim>\<open>.single()\<close>: exactly one row, otherwise an error object.\<close>

definition single_error :: obj where
  "single_error =
     [(''code'', JStr ''PGRST116''),
      (''message'', JStr ''JSON object requested, multiple (or no) rows returned'')]"

definition single :: "obj list \<Rightarrow> obj + obj" where
  "single rs = (case rs of [r] \<Rightarrow> Inr r | _ \<Rightarrow> Inl single_error)"

text \<open>\<^verbatim>\<open>.order(column, {ascending: true})\<close>: a stable sort, nulls last.\<close>

fun str_le :: "string \<Rightarrow> string \<Rightarrow> bool" where
  "str_le [] ys = True"
| "str_le (x # xs) [] = False"
| "str_le (x # xs) (y # ys) =
     ((of_char x :: nat) < of_char y \<or> (x = y \<and> str_le xs ys))"

fun jv_le :: "jv \<Rightarrow> jv \<Rightarrow> bool" where
  "jv_le (JNum a) (JNum b) = (a \<le> b)"
| "jv_le (JStr a) (JStr b) = str_le a b"
| "jv_le a JNull = True"
| "jv_le a JUndefined = True"
| "jv_le JNull b = False"
| "jv_le JUndefined b = False"
| "jv_le a b = True"

fun insert_by :: "string \<Rightarrow> obj \<Rightarrow> obj list \<Rightarrow> obj list" where
  "insert_by col r [] = [r]"
| "insert_by col r (x # xs) =
     (if jv_le (js_get x col) (js_get r col) then x # insert_by col r xs else r # x # xs)"

definition order_by :: "string option \<Rightarrow> obj list \<Rightarrow> obj list" where
  "order_by ord rs = (case ord of None \<Rightarrow> rs | Some col \<Rightarrow> foldl (\<lambda>acc r. insert_by col r acc) [] rs)"

text \<open>\<^verbatim>\<open>from(t).select(cols).eq(...)...\<close>, awaited: the matching rows.\<close>

definition select_rows ::
  "faults \<Rightarrow> tbl \<Rightarrow> string list \<Rightarrow> filters \<Rightarrow> string option \<Rightarrow> world \<Rightarrow> (obj + obj list) \<times> world" where
  "select_rows flt t cols fs ord w =
     (let c = Select t cols fs ord; w' = logged c w in
      case flt c of
        Some e \<Rightarrow> (Inl e, w')
      | None \<Rightarrow> (Inr (map (project cols) (order_by ord (filter (matches fs) (rows w t)))), w'))"

text \<open>The same chain closed by \<^verbatim>\<open>.single()\<close>.\<close>

definition select_single ::
  "faults \<Rightarrow> tbl \<Rightarrow> string list \<Rightarrow> filters \<Rightarrow> world \<Rightarrow> (obj + obj) \<times> world" where
  "select_single flt t cols fs w =
     (case select_rows flt t cols fs None w of
        (Inl e, w') \<Rightarrow> (Inl e, w')
      | (Inr rs, w') \<Rightarrow> (single rs, w'))"

text \<open>
  \<^verbatim>\<open>from(t).insert(row).select().single()\<close>: the store assigns the key and returns
  the new row.
\<close>

definition add_row :: "tbl \<Rightarrow> obj \<Rightarrow> world \<Rightarrow> obj \<times> world" where
  "add_row t p w =
     (let r = (''id'', JStr (show_nat (next_id w))) # p in
      (r, w\<lparr>rows := (rows w)(t := rows w t @ [r]), next_id := Suc (next_id w)\<rparr>))"

definition insert_single :: "faults \<Rightarrow> tbl \<Rightarrow> obj \<Rightarrow> world \<Rightarrow> (obj + obj) \<times> world" where
  "insert_single flt t ob w =
     (let c = Insert t (payload ob); w' = logged c w in
      case flt c of
        Some e \<Rightarrow> (Inl e, w')
      | None \<Rightarrow> (case add_row t (payload ob) w' of (r, w'') \<Rightarrow> (Inr r, w'')))"

text \<open>Overwriting the columns of a row with those of a payload.\<close>

definition merge :: "obj \<Rightarrow> obj \<Rightarrow> obj" where
  "merge p r =
     map (\<lambda>(k, v). (k, case map_of p k of Some v' \<Rightarrow> v' | None \<Rightarrow> v)) r
     @ filter (\<lambda>(k, v). k \<notin> fst ` set r) p"

text \<open>
  \<^verbatim>\<open>from(t).upsert(row, {onConflict: col}).select().single()\<close>: a row that already
  holds the payload's value in the conflict column is overwritten by the payload,
  otherwise the payload is inserted.  A result that is not one row is an error and
  changes nothing.
\<close>

definition upsert_single ::
  "faults \<Rightarrow> tbl \<Rightarrow> obj \<Rightarrow> string \<Rightarrow> world \<Rightarrow> (obj + obj) \<times> world" where
  "upsert_single flt t ob col w =
     (let p = payload ob; c = Upsert t p col; w' = logged c w in
      case flt c of
        Some e \<Rightarrow> (Inl e, w')
      | None \<Rightarrow>
          (let hit = (\<lambda>r. matches [(col, js_get p col)] r) in
           if list_ex hit (rows w t) then
             (case single (map (merge p) (filter hit (rows w t))) of
                Inl e \<Rightarrow> (Inl e, w')
              | Inr r \<Rightarrow>
                  (Inr r, w'\<lparr>rows := (rows w')(t := map (\<lambda>x. if hit x then merge p x else x) (rows w t))\<rparr>))
           else (case add_row t p w' of (r, w'') \<Rightarrow> (Inr r, w''))))"

text \<open>\<^verbatim>\<open>from(t).update(row).eq(...).eq(...).select().single()\<close>.\<close>

definition update_single ::
  "faults \<Rightarrow> tbl \<Rightarrow> obj \<Rightarrow> filters \<Rightarrow> world \<Rightarrow> (obj + obj) \<times> world" where
  "update_single flt t ob fs w =
     (let p = payload ob; c = Update t p fs; w' = logged c w in
      case flt c of
        Some e \<Rightarrow> (Inl e, w')
      | None \<Rightarrow>
          (case single (map (merge p) (filter (matches fs) (rows w t))) of
             Inl e \<Rightarrow> (Inl e, w')
           | Inr r \<Rightarrow>
               (Inr r, w'\<lparr>rows := (rows w')(t := map (\<lambda>x. if matches fs x then merge p x else x) (rows w t))\<rparr>)))"

text \<open>\<^verbatim>\<open>from(t).delete().eq(...).eq(...)\<close>: no rows are asked back.\<close>

definition delete_rows :: "faults \<Rightarrow> tbl \<Rightarrow> filters \<Rightarrow> world \<Rightarrow> (obj + unit) \<times> world" where
  "delete_rows flt t fs w =
     (let c = Delete t fs; w' = logged c w in
      case flt c of
        Some e \<Rightarrow> (Inl e, w')
      | None \<Rightarrow> (Inr (), w'\<lparr>rows := (rows w')(t := filter (\<lambda>r. \<not> matches fs r) (rows w t))\<rparr>))"

text \<open>
  \<^verbatim>\<open>storage.from('vehicle-docs').upload(path, buffer, {contentType, upsert: false})\<close>:
  an existing path is not overwritten.
\<close>

definition exists_error :: obj where
  "exists_error = [(''message'', JStr ''The resource already exists'')]"

definition storage_upload ::
  "faults \<Rightarrow> string \<Rightarrow> string \<Rightarrow> string \<Rightarrow> world \<Rightarrow> (obj + unit) \<times> world" where
  "storage_upload flt path buf ctype w =
     (let c = StorageUpload path buf ctype; w' = logged c w in
      case flt c of
        Some e \<Rightarrow> (Inl e, w')
      | None \<Rightarrow>
          if path \<in> fst ` set (bucket w) then (Inl exists_error, w')
          else (Inr (), w'\<lparr>bucket := bucket w @ [(path, buf)]\<rparr>))"

section \<open>The gateway\<close>

record env =
  SKIP_AUTH :: "string option"
  DEV_UID :: "string option"
  verifyIdToken :: "jv \<Rightarrow> obj + obj"
  fault :: faults
  now :: nat
  SUPABASE_URL :: string

record upfile =
  originalname :: string
  buffer :: string
  mimetype :: string

datatype meth = GET | POST | PUT | DELETE

record request =
  rmethod :: meth
  rpath :: "string list"
  authorization :: "string option"
  params :: obj
  query :: obj
  body :: obj
  upload :: "upfile option"
  user :: obj

record response =
  status :: nat
  json :: obj

type_synonym handler = "env \<Rightarrow> request \<Rightarrow> world \<Rightarrow> response \<times> world"

text \<open>\<^verbatim>\<open>res.status(n).json(o)\<close>; \<^verbatim>\<open>res.json(o)\<close> answers with status 200.\<close>

definition reply :: "nat \<Rightarrow> obj \<Rightarrow> response" where
  "reply n ob = \<lparr>status = n, json = ob\<rparr>"

text \<open>A variable of \<^verbatim>\<open>process.env\<close>: unset reads \<^verbatim>\<open>undefined\<close>.\<close>

definition env_var :: "string option \<Rightarrow> jv" where
  "env_var v = (case v of None \<Rightarrow> JUndefined | Some s \<Rightarrow> JStr s)"

definition token_invalid :: string where
  "token_invalid = ''Token inv'' @ [CHR 0xC3, CHR 0xA1] @ ''lido''"

text \<open>
  \<^verbatim>\<open>verifyToken(req, res, next)\<close>, the same in both revisions of \<^verbatim>\<open>index.js\<close> but
  for console output: \<open>Inl\<close> is the response it sends itself, \<open>Inr\<close> the request it
  hands to \<^verbatim>\<open>next()\<close> with \<^verbatim>\<open>req.user\<close> set.  The identity provider's
  \<^verbatim>\<open>verifyIdToken\<close> is a parameter: \<open>Inl\<close> when it throws, \<open>Inr\<close> the decoded claims.
\<close>

definition verifyToken :: "env \<Rightarrow> request \<Rightarrow> response + request" where
  "verifyToken env req =
     (if SKIP_AUTH env = Some ''true'' then
        Inr (req\<lparr>user :=
               [(''uid'', js_or (env_var (DEV_UID env)) (JStr ''dev-uid'')),
                (''email'', JStr ''dev@example.com'')]\<rparr>)
      else
        (case authorization req of
           None \<Rightarrow> Inl (reply 401 [(''error'', JStr ''No token'')])
         | Some auth \<Rightarrow>
             if auth = [] \<or> \<not> prefix ''Bearer '' auth then
               Inl (reply 401 [(''error'', JStr ''No token'')])
             else
               (let idToken = js_index (split_on CHR '' '' auth) 1 in
                case verifyIdToken env idToken of
                  Inr decoded \<Rightarrow> Inr (req\<lparr>user := decoded\<rparr>)
                | Inl err \<Rightarrow> Inl (reply 401 [(''error'', JStr token_invalid)]))))"

text \<open>A route registered as \<^verbatim>\<open>app.METHOD(path, verifyToken, handler)\<close>.\<close>

definition protected :: "handler \<Rightarrow> handler" where
  "protected h env req w =
     (case verifyToken env req of
        Inl res \<Rightarrow> (res, w)
      | Inr req' \<Rightarrow> h env req' w)"

text \<open>The \<^verbatim>\<open>catch (e)\<close> block of every handler: \<^verbatim>\<open>res.status(500).json({ error: e.message || e })\<close>.\<close>

definition server_error :: "obj \<Rightarrow> response" where
  "server_error e = reply 500 [(''error'', js_or (js_get e ''message'') (JObj e))]"

definition user_not_found :: response where
  "user_not_found = reply 404 [(''error'', JStr ''Usuario no encontrado en la base de datos.'')]"

text \<open>
  The query every resource handler of the later revision starts with:
  \<^verbatim>\<open>supabase.from('users').select('id').eq('firebase_uid', firebaseUid).single()\<close>.
\<close>

definition user_by_uid :: "env \<Rightarrow> jv \<Rightarrow> world \<Rightarrow> (obj + obj) \<times> world" where
  "user_by_uid env firebaseUid w =
     select_single (fault env) Users [''id''] [(''firebase_uid'', firebaseUid)] w"

subsection \<open>Handlers of the later revision\<close>

definition health :: handler where
  "health env req w = (reply 200 [(''ok'', JBool True)], w)"

text \<open>\<^verbatim>\<open>POST /api/registerUser\<close> (the same in both revisions).\<close>

definition registerUser :: handler where
  "registerUser env req w =
     (let uid = js_get (user req) ''uid'';
          email = js_or (js_get (user req) ''email'') (js_get (body req) ''email'');
          displayName =
            js_or (js_or (js_get (user req) ''name'') (js_get (body req) ''displayName'')) JNull
      in
      case upsert_single (fault env) Users
             [(''firebase_uid'', uid), (''email'', email), (''display_name'', displayName)]
             ''firebase_uid'' w of
        (Inl e, w') \<Rightarrow> (server_error e, w')
      | (Inr data, w') \<Rightarrow> (reply 200 [(''ok'', JBool True), (''user'', JObj data)], w'))"

text \<open>\<^verbatim>\<open>POST /api/vehicles\<close>.\<close>

definition createVehicle :: handler where
  "createVehicle env req w =
     (let firebaseUid = js_get (user req) ''uid'' in
      case user_by_uid env firebaseUid w of
        (Inl userError, w1) \<Rightarrow> (user_not_found, w1)
      | (Inr usr, w1) \<Rightarrow>
          (case insert_single (fault env) Vehicles
                  [(''user_id'', js_get usr ''id''),
                   (''make'', js_get (body req) ''make''),
                   (''model'', js_get (body req) ''model''),
                   (''year'', js_get (body req) ''year''),
                   (''license_plate'', js_get (body req) ''license_plate''),
                   (''nickname'', js_get (body req) ''nickname'')] w1 of
             (Inl e, w2) \<Rightarrow> (server_error e, w2)
           | (Inr data, w2) \<Rightarrow> (reply 200 [(''ok'', JBool True), (''vehicle'', JObj data)], w2)))"

text \<open>\<^verbatim>\<open>GET /api/vehicles\<close>.\<close>

definition getVehicles :: handler where
  "getVehicles env req w =
     (let firebaseUid = js_get (user req) ''uid'' in
      case user_by_uid env firebaseUid w of
        (Inl userError, w1) \<Rightarrow> (user_not_found, w1)
      | (Inr usr, w1) \<Rightarrow>
          (case select_rows (fault env) Vehicles [''*''] [(''user_id'', js_get usr ''id'')] None w1 of
             (Inl e, w2) \<Rightarrow> (server_error e, w2)
           | (Inr data, w2) \<Rightarrow>
               (reply 200 [(''ok'', JBool True), (''vehicles'', JArr (map JObj data))], w2)))"

text \<open>\<^verbatim>\<open>GET /api/vehicles/:vehicleId/documents\<close>.\<close>

definition listDocuments :: handler where
  "listDocuments env req w =
     (let vehicleId = js_get (params req) ''vehicleId'' in
      case select_rows (fault env) Documents [''*''] [(''vehicle_id'', vehicleId)]
             (Some ''expiry_date'') w of
        (Inl e, w1) \<Rightarrow> (server_error e, w1)
      | (Inr data, w1) \<Rightarrow>
          (reply 200 [(''ok'', JBool True), (''documents'', JArr (map JObj data))], w1))"

text \<open>
  \<^verbatim>\<open>storage.from('vehicle-docs').getPublicUrl(path)\<close>: computed by the client from
  the service URL, no call to the store.
\<close>

definition getPublicUrl :: "env \<Rightarrow> string \<Rightarrow> obj" where
  "getPublicUrl env path =
     [(''publicUrl'', JStr (SUPABASE_URL env @ ''/storage/v1/object/public/vehicle-docs/'' @ path))]"

text \<open>\<^verbatim>\<open>POST /api/vehicles/:vehicleId/documents\<close>; \<^verbatim>\<open>Date.now()\<close> is \<open>now env\<close>.\<close>

definition uploadDocument :: handler where
  "uploadDocument env req w =
     (let uid = js_get (user req) ''uid'';
          vehicleId = js_get (params req) ''vehicleId'';
          documentType = js_get (body req) ''documentType'';
          expiryDate = js_get (body req) ''expiryDate''
      in
      case upload req of
        None \<Rightarrow> (reply 400 [(''error'', JStr ''file required'')], w)
      | Some f \<Rightarrow>
          (let filename = show_nat (now env) @ ''_'' @ originalname f;
               path = to_str uid @ ''/'' @ to_str vehicleId @ ''/'' @ filename
           in
           case storage_upload (fault env) path (buffer f) (mimetype f) w of
             (Inl e, w1) \<Rightarrow> (server_error e, w1)
           | (Inr up, w1) \<Rightarrow>
               (let urlData = getPublicUrl env path;
                    publicUrl = js_or (js_get urlData ''publicUrl'') JNull
                in
                case insert_single (fault env) Documents
                       [(''vehicle_id'', vehicleId),
                        (''document_type'', documentType),
                        (''expiry_date'', expiryDate),
                        (''storage_path'', JStr path),
                        (''public_url'', publicUrl)] w1 of
                  (Inl e, w2) \<Rightarrow> (server_error e, w2)
                | (Inr data, w2) \<Rightarrow>
                    (reply 200 [(''ok'', JBool True), (''document'', JObj data)], w2))))"

text \<open>\<^verbatim>\<open>POST /api/registerDevice\<close>, the first definition (lines 228 to 259).\<close>

definition registerDevice :: handler where
  "registerDevice env req w =
     (let firebaseUid = js_get (user req) ''uid'';
          token = js_get (body req) ''token'';
          platform = js_get (body req) ''platform''
      in
      if \<not> truthy token then (reply 400 [(''error'', JStr ''token required'')], w)
      else
        (case user_by_uid env firebaseUid w of
           (Inl userError, w1) \<Rightarrow> (user_not_found, w1)
         | (Inr usr, w1) \<Rightarrow>
             (case upsert_single (fault env) Devices
                     [(''user_id'', js_get usr ''id''), (''token'', token), (''platform'', platform)]
                     ''token'' w1 of
                (Inl e, w2) \<Rightarrow> (server_error e, w2)
              | (Inr data, w2) \<Rightarrow>
                  (reply 200 [(''ok'', JBool True), (''device'', JObj data)], w2))))"

text \<open>\<^verbatim>\<open>POST /api/registerDevice\<close>, the second definition (lines 262 to 293).\<close>

definition registerDevice2 :: handler where
  "registerDevice2 env req w =
     (let firebaseUid = js_get (user req) ''uid'';
          token = js_get (body req) ''token'';
          platform = js_get (body req) ''platform''
      in
      if \<not> truthy token then (reply 400 [(''error'', JStr ''token required'')], w)
      else
        (case user_by_uid env firebaseUid w of
           (Inl userError, w1) \<Rightarrow> (user_not_found, w1)
         | (Inr usr, w1) \<Rightarrow>
             (case upsert_single (fault env) Devices
                     [(''user_id'', js_get usr ''id''), (''token'', token), (''platform'', platform)]
                     ''token'' w1 of
                (Inl e, w2) \<Rightarrow> (server_error e, w2)
              | (Inr data, w2) \<Rightarrow>
                  (reply 200 [(''ok'', JBool True), (''device'', JObj data)], w2))))"

text \<open>\<^verbatim>\<open>GET /api/reminders\<close>.\<close>

definition getReminders :: handler where
  "getReminders env req w =
     (let firebaseUid = js_get (user req) ''uid'';
          vehicleId = js_get (query req) ''vehicleId''
      in
      case user_by_uid env firebaseUid w of
        (Inl userError, w1) \<Rightarrow> (user_not_found, w1)
      | (Inr usr, w1) \<Rightarrow>
          (let fs = [(''user_id'', js_get usr ''id'')]
                    @ (if truthy vehicleId then [(''vehicle_id'', vehicleId)] else [])
           in
           case select_rows (fault env) Reminders [''*''] fs (Some ''due_date'') w1 of
             (Inl e, w2) \<Rightarrow> (server_error e, w2)
           | (Inr data, w2) \<Rightarrow>
               (reply 200 [(''ok'', JBool True), (''reminders'', JArr (map JObj data))], w2)))"

text \<open>\<^verbatim>\<open>POST /api/reminders\<close>.\<close>

definition createReminder :: handler where
  "createReminder env req w =
     (let firebaseUid = js_get (user req) ''uid'' in
      case user_by_uid env firebaseUid w of
        (Inl userError, w1) \<Rightarrow> (user_not_found, w1)
      | (Inr usr, w1) \<Rightarrow>
          (case insert_single (fault env) Reminders
                  [(''user_id'', js_get usr ''id''),
                   (''vehicle_id'', js_get (body req) ''vehicle_id''),
                   (''title'', js_get (body req) ''title''),
                   (''notes'', js_get (body req) ''notes''),
                   (''due_date'', js_get (body req) ''due_date''),
                   (''is_completed'', js_nullish (js_get (body req) ''is_completed'') (JBool False))]
                  w1 of
             (Inl e, w2) \<Rightarrow> (server_error e, w2)
           | (Inr data, w2) \<Rightarrow> (reply 200 [(''ok'', JBool True), (''reminder'', JObj data)], w2)))"

text \<open>\<^verbatim>\<open>PUT /api/reminders/:id\<close>.\<close>

definition updateReminder :: handler where
  "updateReminder env req w =
     (let firebaseUid = js_get (user req) ''uid'';
          id = js_get (params req) ''id''
      in
      case user_by_uid env firebaseUid w of
        (Inl userError, w1) \<Rightarrow> (user_not_found, w1)
      | (Inr usr, w1) \<Rightarrow>
          (case update_single (fault env) Reminders
                  [(''vehicle_id'', js_get (body req) ''vehicle_id''),
                   (''title'', js_get (body req) ''title''),
                   (''notes'', js_get (body req) ''notes''),
                   (''due_date'', js_get (body req) ''due_date''),
                   (''is_completed'', js_get (body req) ''is_completed'')]
                  [(''id'', id), (''user_id'', js_get usr ''id'')] w1 of
             (Inl e, w2) \<Rightarrow> (server_error e, w2)
           | (Inr data, w2) \<Rightarrow> (reply 200 [(''ok'', JBool True), (''reminder'', JObj data)], w2)))"

text \<open>\<^verbatim>\<open>DELETE /api/reminders/:id\<close>.\<close>

definition deleteReminder :: handler where
  "deleteReminder env req w =
     (let firebaseUid = js_get (user req) ''uid'';
          id = js_get (params req) ''id''
      in
      case user_by_uid env firebaseUid w of
        (Inl userError, w1) \<Rightarrow> (user_not_found, w1)
      | (Inr usr, w1) \<Rightarrow>
          (case delete_rows (fault env) Reminders
                  [(''id'', id), (''user_id'', js_get usr ''id'')] w1 of
             (Inl e, w2) \<Rightarrow> (server_error e, w2)
           | (Inr u, w2) \<Rightarrow>
               (reply 200 [(''ok'', JBool True), (''message'', JStr ''Reminder deleted successfully.'')],
                w2)))"

subsection \<open>Handlers of the earlier revision that differ\<close>

text \<open>
  \<^verbatim>\<open>POST /api/vehicles\<close> of \<^verbatim>\<open>src/index.js\<close> (lines 89 to 103): the vehicle row
  carries the external identity, no user row is read.
\<close>

definition createVehicle_src_index :: handler where
  "createVehicle_src_index env req w =
     (let uid = js_get (user req) ''uid'' in
      case insert_single (fault env) Vehicles
             [(''firebase_uid'', uid),
              (''make'', js_get (body req) ''make''),
              (''model'', js_get (body req) ''model''),
              (''year'', js_get (body req) ''year''),
              (''license_plate'', js_get (body req) ''license_plate'')] w of
        (Inl e, w1) \<Rightarrow> (server_error e, w1)
      | (Inr data, w1) \<Rightarrow> (reply 200 [(''ok'', JBool True), (''vehicle'', JObj data)], w1))"

text \<open>\<^verbatim>\<open>POST /api/registerDevice\<close> of \<^verbatim>\<open>src/index.js\<close> (lines 166 to 181).\<close>

definition registerDevice_src_index :: handler where
  "registerDevice_src_index env req w =
     (let uid = js_get (user req) ''uid'';
          token = js_get (body req) ''token'';
          platform = js_get (body req) ''platform''
      in
      if \<not> truthy token then (reply 400 [(''error'', JStr ''token required'')], w)
      else
        (case upsert_single (fault env) Devices
                [(''firebase_uid'', uid), (''token'', token), (''platform'', platform)]
                ''token'' w of
           (Inl e, w1) \<Rightarrow> (server_error e, w1)
         | (Inr data, w1) \<Rightarrow> (reply 200 [(''ok'', JBool True), (''device'', JObj data)], w1)))"

text \<open>
  \<^verbatim>\<open>POST /api/vehicles/:vehicleId/documents\<close> of \<^verbatim>\<open>src/index.js\<close> (lines 123 to
  163): the public URL is stored as the storage path.
\<close>

definition uploadDocument_src_index :: handler where
  "uploadDocument_src_index env req w =
     (let uid = js_get (user req) ''uid'';
          vehicleId = js_get (params req) ''vehicleId'';
          documentType = js_get (body req) ''documentType'';
          expiryDate = js_get (body req) ''expiryDate''
      in
      case upload req of
        None \<Rightarrow> (reply 400 [(''error'', JStr ''file required'')], w)
      | Some f \<Rightarrow>
          (let filename = show_nat (now env) @ ''_'' @ originalname f;
               path = to_str uid @ ''/'' @ to_str vehicleId @ ''/'' @ filename
           in
           case storage_upload (fault env) path (buffer f) (mimetype f) w of
             (Inl e, w1) \<Rightarrow> (server_error e, w1)
           | (Inr up, w1) \<Rightarrow>
               (let urlData = getPublicUrl env path;
                    publicUrl = js_or (js_get urlData ''publicUrl'') JNull
                in
                case insert_single (fault env) Documents
                       [(''vehicle_id'', vehicleId),
                        (''document_type'', documentType),
                        (''expiry_date'', expiryDate),
                        (''storage_path'', publicUrl)] w1 of
                  (Inl e, w2) \<Rightarrow> (server_error e, w2)
                | (Inr data, w2) \<Rightarrow>
                    (reply 200 [(''ok'', JBool True), (''document'', JObj data)], w2))))"

subsection \<open>Routing\<close>

text \<open>
  Routes are tried in the order they were registered; \<^verbatim>\<open>:name\<close> in a pattern binds
  a path segment.  No handler calls \<^verbatim>\<open>next()\<close>, so the first route that matches
  answers; a request that matches none gets the framework's 404.
\<close>

type_synonym route = "meth \<times> string list \<times> handler"

fun match_path :: "string list \<Rightarrow> string list \<Rightarrow> obj option" where
  "match_path [] [] = Some []"
| "match_path (p # ps) (s # ss) =
     (case p of
        CHR '':'' # name \<Rightarrow>
          (case match_path ps ss of None \<Rightarrow> None | Some bs \<Rightarrow> Some ((name, JStr s) # bs))
      | _ \<Rightarrow> if p = s then match_path ps ss else None)"
| "match_path _ _ = None"

fun dispatch :: "route list \<Rightarrow> handler" where
  "dispatch [] env req w = (reply 404 [], w)"
| "dispatch ((m, p, h) # rs) env req w =
     (if m = rmethod req then
        (case match_path p (rpath req) of
           Some bs \<Rightarrow> h env (req\<lparr>params := bs\<rparr>) w
         | None \<Rightarrow> dispatch rs env req w)
      else dispatch rs env req w)"

text \<open>The routes of the later revision, in source order.\<close>

definition routes :: "route list" where
  "routes =
     [(GET, [''health''], health),
      (POST, [''api'', ''registerUser''], protected registerUser),
      (POST, [''api'', ''vehicles''], protected createVehicle),
      (GET, [''api'', ''vehicles''], protected getVehicles),
      (GET, [''api'', ''vehicles'', '':vehicleId'', ''documents''], protected listDocuments),
      (POST, [''api'', ''vehicles'', '':vehicleId'', ''documents''], protected uploadDocument),
      (POST, [''api'', ''registerDevice''], protected registerDevice),
      (POST, [''api'', ''registerDevice''], protected registerDevice2),
      (GET, [''api'', ''reminders''], protected getReminders),
      (POST, [''api'', ''reminders''], protected createReminder),
      (PUT, [''api'', ''reminders'', '':id''], protected updateReminder),
      (DELETE, [''api'', ''reminders'', '':id''], protected deleteReminder)]"

definition app :: handler where
  "app = dispatch routes"

text \<open>The routes of the earlier revision, \<^verbatim>\<open>src/index.js\<close>.\<close>

definition routes_src_index :: "route list" where
  "routes_src_index =
     [(GET, [''health''], health),
      (POST, [''api'', ''registerUser''], protected registerUser),
      (POST, [''api'', ''vehicles''], protected createVehicle_src_index),
      (GET, [''api'', ''vehicles'', '':vehicleId'', ''documents''], protected listDocuments),
      (POST, [''api'', ''vehicles'', '':vehicleId'', ''documents''], protected uploadDocument_src_index),
      (POST, [''api'', ''registerDevice''], protected registerDevice_src_index)]"

section \<open>The expiration notifier\<close>

text \<open>
  \<^verbatim>\<open>sendNotifications.js\<close>.  An instant is a number of milliseconds since the epoch,
  what \<^verbatim>\<open>getTime()\<close> reads.  The clock, the offset of local time from UTC, the
  engine's date parser and the push client's \<^verbatim>\<open>sendMulticast\<close> (\<open>Inl\<close> when it
  throws, \<open>Inr\<close> its success count) are parameters of a run.
\<close>

record job_env =
  job_fault :: faults
  clock :: int
  tz_offset :: int
  date_parse :: "string \<Rightarrow> int option"
  sendMulticast :: "message \<Rightarrow> obj + nat"


definition day_ms :: int where
  "day_ms = 1000 * 60 * 60 * 24"

text \<open>
  \<^verbatim>\<open>new Date(now.getFullYear(), now.getMonth(), now.getDate())\<close>: local midnight of
  the current day, for a local time at a fixed offset from UTC.
\<close>

definition startOfToday :: "job_env \<Rightarrow> int" where
  "startOfToday env = ((clock env + tz_offset env) div day_ms) * day_ms - tz_offset env"



text \<open>\<^verbatim>\<open>new Date(v).getTime()\<close>; \<open>None\<close> is \<^verbatim>\<open>NaN\<close>.\<close>

definition date_ms :: "(string \<Rightarrow> int option) \<Rightarrow> jv \<Rightarrow> int option" where
  "date_ms parse v =
     (case v of
        JStr s \<Rightarrow> parse s
      | JNum n \<Rightarrow> Some n
      | JNull \<Rightarrow> Some 0
      | JBool b \<Rightarrow> Some (if b then 1 else 0)
      | _ \<Rightarrow> None)"



text \<open>\<^verbatim>\<open>Math.ceil(a / b)\<close> for a positive divisor.\<close>

definition ceil_div :: "int \<Rightarrow> int \<Rightarrow> int" where
  "ceil_div a b = - ((- a) div b)"

text \<open>
  \<^verbatim>\<open>Math.ceil((expiry.getTime() - startOfToday.getTime()) / (1000*60*60*24))\<close>.
\<close>

definition diffDays :: "job_env \<Rightarrow> obj \<Rightarrow> int option" where
  "diffDays env d =
     (case date_ms (date_parse env) (js_get d ''expiry_date'') of
        None \<Rightarrow> None
      | Some expiry \<Rightarrow> Some (ceil_div (expiry - startOfToday env) day_ms))"






section \<open>Hypotheses and example states\<close>

text \<open>
  A request carries no valid bearer token: the header is missing, does not start with
  \<^verbatim>\<open>Bearer\<close> and a space, or the identity provider rejects the token read from it.
\<close>

definition no_valid_token :: "env \<Rightarrow> request \<Rightarrow> bool" where
  "no_valid_token env req =
     (case authorization req of
        None \<Rightarrow> True
      | Some auth \<Rightarrow>
          \<not> prefix ''Bearer '' auth
          \<or> isl (verifyIdToken env (js_index (split_on CHR '' '' auth) 1)))"

text \<open>An environment without the bypass, whose provider accepts one token.\<close>

definition env0 :: env where
  "env0 =
     \<lparr>SKIP_AUTH = None, DEV_UID = None,
      verifyIdToken =
        (\<lambda>t. if t = JStr ''good''
              then Inr [(''uid'', JStr ''u1''), (''email'', JStr ''a@x.org'')]
              else Inl [(''message'', JStr ''bad token'')]),
      fault = (\<lambda>c. None), now = 1234, SUPABASE_URL = ''https://s''\<rparr>"

definition req0 :: request where
  "req0 =
     \<lparr>rmethod = POST, rpath = [''api'', ''vehicles''], authorization = Some ''Bearer bad'',
      params = [], query = [], body = [], upload = None, user = []\<rparr>"

definition w0 :: world where
  "w0 = \<lparr>rows = (\<lambda>t. []), bucket = [], next_id = 1, trace = [], sent = [], warnings = []\<rparr>"

text \<open>Two registered users; the only reminder belongs to the second.\<close>

definition w1 :: world where
  "w1 =
     \<lparr>rows = (\<lambda>t. case t of
                Users \<Rightarrow> [[(''id'', JStr ''1''), (''firebase_uid'', JStr ''u1''), (''email'', JStr ''a@x.org'')],
                          [(''id'', JStr ''2''), (''firebase_uid'', JStr ''u2''), (''email'', JStr ''b@x.org'')]]
              | Reminders \<Rightarrow> [[(''id'', JStr ''10''), (''user_id'', JStr ''2''), (''title'', JStr ''oil'')]]
              | _ \<Rightarrow> []),
      bucket = [], next_id = 11, trace = [], sent = [], warnings = []\<rparr>"

definition req_put :: request where
  "req_put =
     \<lparr>rmethod = PUT, rpath = [''api'', ''reminders'', ''10''], authorization = Some ''Bearer good'',
      params = [(''id'', JStr ''10'')], query = [], body = [(''title'', JStr ''mine'')],
      upload = None, user = [(''uid'', JStr ''u1''), (''email'', JStr ''a@x.org'')]\<rparr>"

text \<open>The reminder named by the request belongs to nobody with internal id \<open>uidv\<close>.\<close>

definition owned_by_other :: "jv \<Rightarrow> jv \<Rightarrow> world \<Rightarrow> bool" where
  "owned_by_other rid uidv w =
     list_all (\<lambda>r. js_get r ''id'' = rid \<longrightarrow> js_get r ''user_id'' \<noteq> uidv) (rows w Reminders)"

text \<open>Exactly one user row \<open>u\<close> carries the external identity \<open>uid\<close>.\<close>

definition registered :: "jv \<Rightarrow> obj \<Rightarrow> world \<Rightarrow> bool" where
  "registered uid u w = (filter (matches [(''firebase_uid'', uid)]) (rows w Users) = [u])"


definition req_post :: request where
  "req_post =
     \<lparr>rmethod = POST, rpath = [''api'', ''vehicles''], authorization = Some ''Bearer good'',
      params = [], query = [], body = [(''make'', JStr ''Seat''), (''year'', JNum 2020)],
      upload = None, user = [(''uid'', JStr ''u1''), (''email'', JStr ''a@x.org'')]\<rparr>"

text \<open>The routes with the second \<^verbatim>\<open>registerDevice\<close> definition left out.\<close>

definition routes_single :: "route list" where
  "routes_single =
     [(GET, [''health''], health),
      (POST, [''api'', ''registerUser''], protected registerUser),
      (POST, [''api'', ''vehicles''], protected createVehicle),
      (GET, [''api'', ''vehicles''], protected getVehicles),
      (GET, [''api'', ''vehicles'', '':vehicleId'', ''documents''], protected listDocuments),
      (POST, [''api'', ''vehicles'', '':vehicleId'', ''documents''], protected uploadDocument),
      (POST, [''api'', ''registerDevice''], protected registerDevice),
      (GET, [''api'', ''reminders''], protected getReminders),
      (POST, [''api'', ''reminders''], protected createReminder),
      (PUT, [''api'', ''reminders'', '':id''], protected updateReminder),
      (DELETE, [''api'', ''reminders'', '':id''], protected deleteReminder)]"

definition req_dev :: request where
  "req_dev =
     \<lparr>rmethod = POST, rpath = [''api'', ''registerDevice''], authorization = Some ''Bearer good'',
      params = [], query = [], body = [(''token'', JStr ''tok-1''), (''platform'', JStr ''android'')],
      upload = None, user = []\<rparr>"

text \<open>The storage path and the metadata row the upload handler computes.\<close>

definition upload_path :: "env \<Rightarrow> request \<Rightarrow> upfile \<Rightarrow> string" where
  "upload_path env req f =
     to_str (js_get (user req) ''uid'') @ ''/'' @ to_str (js_get (params req) ''vehicleId'')
     @ ''/'' @ show_nat (now env) @ ''_'' @ originalname f"

definition upload_call :: "env \<Rightarrow> request \<Rightarrow> upfile \<Rightarrow> call" where
  "upload_call env req f = StorageUpload (upload_path env req f) (buffer f) (mimetype f)"

definition document_insert :: "env \<Rightarrow> request \<Rightarrow> upfile \<Rightarrow> call" where
  "document_insert env req f =
     Insert Documents
       (payload
          [(''vehicle_id'', js_get (params req) ''vehicleId''),
           (''document_type'', js_get (body req) ''documentType''),
           (''expiry_date'', js_get (body req) ''expiryDate''),
           (''storage_path'', JStr (upload_path env req f)),
           (''public_url'',
            JStr (SUPABASE_URL env @ ''/storage/v1/object/public/vehicle-docs/''
                  @ upload_path env req f))])"

definition req_up :: request where
  "req_up =
     \<lparr>rmethod = POST, rpath = [''api'', ''vehicles'', ''7'', ''documents''],
      authorization = Some ''Bearer good'',
      params = [(''vehicleId'', JStr ''7'')], query = [],
      body = [(''documentType'', JStr ''ITV''), (''expiryDate'', JStr ''2030-01-01'')],
      upload = Some \<lparr>originalname = ''itv.pdf'', buffer = ''%PDF'', mimetype = ''application/pdf''\<rparr>,
      user = [(''uid'', JStr ''u1''), (''email'', JStr ''a@x.org'')]\<rparr>"

text \<open>The store is down for every insert into the documents table.\<close>

definition env_insert_down :: env where
  "env_insert_down =
     env0\<lparr>fault := (\<lambda>c. case c of
                        Insert t p \<Rightarrow> if t = Documents then Some [(''message'', JStr ''insert failed'')] else None
                      | _ \<Rightarrow> None)\<rparr>"

text \<open>The storage service is down.\<close>

definition env_storage_down :: env where
  "env_storage_down =
     env0\<lparr>fault := (\<lambda>c. case c of
                        StorageUpload p b m \<Rightarrow> Some [(''message'', JStr ''storage failed'')]
                      | _ \<Rightarrow> None)\<rparr>"

text \<open>The user rows that carry the external identity \<open>uid\<close>.\<close>

definition stored_user :: "jv \<Rightarrow> world \<Rightarrow> obj list" where
  "stored_user uid w = filter (matches [(''firebase_uid'', uid)]) (rows w Users)"

definition req_reg1 :: request where
  "req_reg1 =
     \<lparr>rmethod = POST, rpath = [''api'', ''registerUser''], authorization = Some ''Bearer good'',
      params = [], query = [],
      body = [(''email'', JStr ''evil@x.org''), (''displayName'', JStr ''Ann'')],
      upload = None, user = [(''uid'', JStr ''u1''), (''email'', JStr ''a@x.org'')]\<rparr>"

definition req_reg2 :: request where
  "req_reg2 =
     \<lparr>rmethod = POST, rpath = [''api'', ''registerUser''], authorization = Some ''Bearer good'',
      params = [], query = [], body = [],
      upload = None,
      user = [(''uid'', JStr ''u1''), (''email'', JStr ''new@x.org''), (''name'', JStr ''Ann B'')]\<rparr>"













text \<open>The table a call reaches; a storage call reaches none.\<close>

fun call_table :: "call \<Rightarrow> tbl option" where
  "call_table (Select t cols fs ord) = Some t"
| "call_table (SelectRange t cols col lo hi) = Some t"
| "call_table (Insert t p) = Some t"
| "call_table (Upsert t p col) = Some t"
| "call_table (Update t p fs) = Some t"
| "call_table (Delete t fs) = Some t"
| "call_table (StorageUpload path buf ct) = None"

definition resource_call :: "call \<Rightarrow> bool" where
  "resource_call c =
     (call_table c \<in> {Some Vehicles, Some Documents, Some Devices, Some Reminders})"

text \<open>The columns by which a call picks or labels rows: its filters, or the row it writes.\<close>

fun call_keys :: "call \<Rightarrow> (string \<times> jv) list" where
  "call_keys (Select t cols fs ord) = fs"
| "call_keys (SelectRange t cols col lo hi) = []"
| "call_keys (Insert t p) = p"
| "call_keys (Upsert t p col) = p"
| "call_keys (Update t p fs) = fs"
| "call_keys (Delete t fs) = fs"
| "call_keys (StorageUpload path buf ct) = []"

text \<open>The lookup of the user row by external identity.\<close>

definition user_lookup :: "jv \<Rightarrow> call" where
  "user_lookup uid = Select Users [''id''] [(''firebase_uid'', uid)] None"

text \<open>
  Every call on a resource table in the list comes after a lookup of the user row by
  external identity (\<open>seen\<close>: a lookup came before the list).
\<close>

fun lookup_before :: "jv \<Rightarrow> bool \<Rightarrow> call list \<Rightarrow> bool" where
  "lookup_before uid seen [] = True"
| "lookup_before uid seen (c # cs) =
     ((resource_call c \<longrightarrow> seen) \<and> lookup_before uid (seen \<or> c = user_lookup uid) cs)"

text \<open>The calls a handler adds to the trace.\<close>

definition new_calls :: "handler \<Rightarrow> env \<Rightarrow> request \<Rightarrow> world \<Rightarrow> call list" where
  "new_calls h env req w = drop (length (trace w)) (trace (snd (h env req w)))"

text \<open>
  A handler run reaches resource rows only through the caller's internal id: the user
  lookup comes first, and every call on a resource table carries \<^verbatim>\<open>user_id\<close> with
  the id of a user row of the caller's identity, and no \<^verbatim>\<open>firebase_uid\<close>.
\<close>

definition via_internal_id :: "handler \<Rightarrow> env \<Rightarrow> request \<Rightarrow> world \<Rightarrow> bool" where
  "via_internal_id h env req w =
     (let uid = js_get (user req) ''uid''; cs = new_calls h env req w in
      lookup_before uid False cs \<and>
      list_all (\<lambda>c. resource_call c \<longrightarrow>
                  ''firebase_uid'' \<notin> fst ` set (call_keys c) \<and>
                  list_ex (\<lambda>u. js_get u ''firebase_uid'' = uid \<and>
                               (''user_id'', js_get u ''id'') \<in> set (call_keys c))
                    (rows w Users)) cs)"

text \<open>The handlers of the later revision that resolve the user first.\<close>

definition user_scoped_handlers :: "handler list" where
  "user_scoped_handlers =
     [createVehicle, getVehicles, registerDevice, registerDevice2,
      getReminders, createReminder, updateReminder, deleteReminder]"

text \<open>Every user row has its key.\<close>

definition users_have_ids :: "world \<Rightarrow> bool" where
  "users_have_ids w = list_all (\<lambda>u. js_get u ''id'' \<noteq> JUndefined) (rows w Users)"

definition req_docs :: request where
  "req_docs =
     \<lparr>rmethod = GET, rpath = [''api'', ''vehicles'', ''7'', ''documents''],
      authorization = Some ''Bearer good'',
      params = [(''vehicleId'', JStr ''7'')], query = [], body = [],
      upload = None, user = [(''uid'', JStr ''u1''), (''email'', JStr ''a@x.org'')]\<rparr>"

section \<open>Properties\<close>

subsection \<open>Authentication\<close>

lemma verifyToken_rejects:
  assumes "SKIP_AUTH env \<noteq> Some ''true''" and "no_valid_token env req"
  shows "\<exists>m\<in>{''No token'', token_invalid}.
           verifyToken env req = Inl (reply 401 [(''error'', JStr m)])"
  using assms
  by (auto simp: verifyToken_def no_valid_token_def Let_def split: option.splits sum.splits)

text \<open>
  C1.  With the bypass flag off, a request with no Authorization header, with a header
  that does not begin with \<^verbatim>\<open>Bearer\<close> and a space, or with a token the identity
  provider rejects, is answered with status 401 and a body that holds only a generic
  error message.  The answer and the world are the same whatever handler stands behind
  the middleware: the handler is not run, the store is untouched and no call is added to
  the trace.  This holds for every route of both revisions of the gateway but the health
  check.
\<close>

theorem unauthorized_no_effect:
  assumes "SKIP_AUTH env \<noteq> Some ''true''" and "no_valid_token env req"
  shows "\<exists>m\<in>{''No token'', token_invalid}.
           (\<forall>h. protected h env req w = (reply 401 [(''error'', JStr m)], w)) \<and>
           (\<forall>(mt, p, h)\<in>set routes \<union> set routes_src_index. p \<noteq> [''health''] \<longrightarrow>
                h env req w = (reply 401 [(''error'', JStr m)], w))"
proof -
  from verifyToken_rejects[OF assms] obtain m where
    m: "m \<in> {''No token'', token_invalid}" and
    v: "verifyToken env req = Inl (reply 401 [(''error'', JStr m)])" by blast
  have p: "\<And>h. protected h env req w = (reply 401 [(''error'', JStr m)], w)"
    by (simp add: protected_def v)
  have "\<forall>(mt, p, h)\<in>set routes \<union> set routes_src_index. p \<noteq> [''health''] \<longrightarrow>
                h env req w = (reply 401 [(''error'', JStr m)], w)"
    by (simp add: routes_def routes_src_index_def p)
  with m p show ?thesis by blast
qed

theorem unauthorized_no_effect_witness:
  "SKIP_AUTH env0 \<noteq> Some ''true'' \<and> no_valid_token env0 req0 \<and>
   (\<exists>m\<in>{''No token'', token_invalid}.
      protected createVehicle env0 req0 w0 = (reply 401 [(''error'', JStr m)], w0))"
proof -
  have a: "SKIP_AUTH env0 \<noteq> Some ''true''" by (simp add: env0_def)
  have b: "no_valid_token env0 req0"
    by (simp add: no_valid_token_def req0_def env0_def js_index_def)
  from unauthorized_no_effect[OF a b, of w0] a b show ?thesis by blast
qed

subsection \<open>Facts about the store client\<close>

lemma js_get_project [simp]: "k \<in> set cols \<Longrightarrow> js_get (project cols r) k = js_get r k"
  by (induction r) (auto simp: project_def js_get_def)

lemma user_by_uid_trace:
  "snd (user_by_uid env uid w) = logged (Select Users [''id''] [(''firebase_uid'', uid)] None) w"
  by (simp add: user_by_uid_def select_single_def select_rows_def Let_def split: option.splits)

lemma user_by_uid_found:
  assumes "fault env (Select Users [''id''] [(''firebase_uid'', uid)] None) = None"
    and "filter (matches [(''firebase_uid'', uid)]) (rows w Users) = [u]"
  shows "user_by_uid env uid w =
           (Inr (project [''id''] u), logged (Select Users [''id''] [(''firebase_uid'', uid)] None) w)"
  using assms
  by (simp add: user_by_uid_def select_single_def select_rows_def Let_def single_def order_by_def)


lemma matches_js_get: "matches fs r \<Longrightarrow> (k, v) \<in> set fs \<Longrightarrow> js_get r k = v"
  by (auto simp: matches_def list_all_iff js_get_def)

lemma no_hit:
  assumes "owned_by_other rid uidv w"
  shows "filter (matches [(''id'', rid), (''user_id'', uidv)]) (rows w Reminders) = []"
proof -
  have "\<not> matches [(''id'', rid), (''user_id'', uidv)] r" if "r \<in> set (rows w Reminders)" for r
  proof
    assume m: "matches [(''id'', rid), (''user_id'', uidv)] r"
    have "js_get r ''id'' = rid" "js_get r ''user_id'' = uidv"
      using matches_js_get[OF m] by simp_all
    with assms that show False by (auto simp: owned_by_other_def list_all_iff)
  qed
  then show ?thesis by (simp add: filter_empty_conv)
qed

lemma logged_rows [simp]: "rows (logged c w) = rows w" "bucket (logged c w) = bucket w"
  "next_id (logged c w) = next_id w" "sent (logged c w) = sent w" "warnings (logged c w) = warnings w"
  "trace (logged c w) = trace w @ [c]"
  by (simp_all add: logged_def)

subsection \<open>Reminders of another user\<close>

text \<open>
  C2, as amended.  Let the caller be registered (exactly one user row carries the
  external identity) and let every reminder with the requested id be owned by another
  internal user id, with the store answering every call.  Both handlers filter on the
  record id and on the caller's internal id, and no row changes: the world differs from
  the one before only by the two calls added to the trace.  The delete handler answers
  200 with its success message.  The update handler ends its query with
  \<^verbatim>\<open>.single()\<close>, gets the store's no-row error and answers 500 with that error's
  message.
\<close>

theorem foreign_reminder_untouched:
  assumes nf: "fault env = (\<lambda>c. None)"
    and reg: "registered (js_get (user req) ''uid'') u w"
    and oth: "owned_by_other (js_get (params req) ''id'') (js_get u ''id'') w"
  shows "updateReminder env req w =
            (server_error single_error,
             w\<lparr>trace := trace w @
                 [Select Users [''id''] [(''firebase_uid'', js_get (user req) ''uid'')] None,
                  Update Reminders
                    (payload
                      [(''vehicle_id'', js_get (body req) ''vehicle_id''),
                       (''title'', js_get (body req) ''title''),
                       (''notes'', js_get (body req) ''notes''),
                       (''due_date'', js_get (body req) ''due_date''),
                       (''is_completed'', js_get (body req) ''is_completed'')])
                    [(''id'', js_get (params req) ''id''), (''user_id'', js_get u ''id'')]]\<rparr>) \<and>
         deleteReminder env req w =
            (reply 200 [(''ok'', JBool True), (''message'', JStr ''Reminder deleted successfully.'')],
             w\<lparr>trace := trace w @
                 [Select Users [''id''] [(''firebase_uid'', js_get (user req) ''uid'')] None,
                  Delete Reminders
                    [(''id'', js_get (params req) ''id''), (''user_id'', js_get u ''id'')]]\<rparr>)"
proof -
  let ?sel = "Select Users [''id''] [(''firebase_uid'', js_get (user req) ''uid'')] None"
  have f: "fault env c = None" for c using nf by simp
  have ub: "user_by_uid env (js_get (user req) ''uid'') w = (Inr (project [''id''] u), logged ?sel w)"
    using user_by_uid_found[OF f] reg by (simp add: registered_def)
  have nh: "filter (matches [(''id'', js_get (params req) ''id''), (''user_id'', js_get u ''id'')])
              (rows w Reminders) = []"
    by (rule no_hit[OF oth])
  have nh': "filter (\<lambda>r. \<not> matches [(''id'', js_get (params req) ''id''), (''user_id'', js_get u ''id'')] r)
              (rows w Reminders) = rows w Reminders"
    using nh by (simp add: filter_empty_conv)
  have upd: "updateReminder env req w =
            (server_error single_error,
             w\<lparr>trace := trace w @ [?sel, Update Reminders
                    (payload
                      [(''vehicle_id'', js_get (body req) ''vehicle_id''),
                       (''title'', js_get (body req) ''title''),
                       (''notes'', js_get (body req) ''notes''),
                       (''due_date'', js_get (body req) ''due_date''),
                       (''is_completed'', js_get (body req) ''is_completed'')])
                    [(''id'', js_get (params req) ''id''), (''user_id'', js_get u ''id'')]]\<rparr>)"
    by (simp add: updateReminder_def ub update_single_def Let_def f nh single_def logged_def)
  have del: "deleteReminder env req w =
            (reply 200 [(''ok'', JBool True), (''message'', JStr ''Reminder deleted successfully.'')],
             w\<lparr>trace := trace w @ [?sel, Delete Reminders
                    [(''id'', js_get (params req) ''id''), (''user_id'', js_get u ''id'')]]\<rparr>)"
    by (simp add: deleteReminder_def ub delete_rows_def Let_def f nh' logged_def)
  from upd del show ?thesis by simp
qed

theorem foreign_reminder_untouched_witness:
  "fault env0 = (\<lambda>c. None) \<and>
   registered (JStr ''u1'') [(''id'', JStr ''1''), (''firebase_uid'', JStr ''u1''), (''email'', JStr ''a@x.org'')] w1 \<and>
   owned_by_other (JStr ''10'') (JStr ''1'') w1 \<and>
   status (fst (updateReminder env0 req_put w1)) = 500 \<and>
   rows (snd (updateReminder env0 req_put w1)) = rows w1 \<and>
   status (fst (deleteReminder env0 req_put w1)) = 200 \<and>
   rows (snd (deleteReminder env0 req_put w1)) = rows w1"
proof -
  let ?u = "[(''id'', JStr ''1''), (''firebase_uid'', JStr ''u1''), (''email'', JStr ''a@x.org'')]"
  have a: "fault env0 = (\<lambda>c. None)" by (simp add: env0_def)
  have b: "registered (js_get (user req_put) ''uid'') ?u w1"
    by (simp add: registered_def w1_def matches_def req_put_def js_get_def)
  have c: "owned_by_other (js_get (params req_put) ''id'') (js_get ?u ''id'') w1"
    by (simp add: owned_by_other_def w1_def js_get_def req_put_def)
  from foreign_reminder_untouched[OF a b c] a b c show ?thesis
    by (auto simp: server_error_def reply_def req_put_def js_get_def)
qed

text \<open>
  The claim as stated fails for the update handler: user \<open>u1\<close> (internal id 1) updates
  reminder 10 of user 2 and is answered with status 500.
\<close>

theorem foreign_reminder_update_counterexample:
  "js_get (user req_put) ''uid'' = JStr ''u1'' \<and>
   filter (matches [(''firebase_uid'', JStr ''u1'')]) (rows w1 Users)
     = [[(''id'', JStr ''1''), (''firebase_uid'', JStr ''u1''), (''email'', JStr ''a@x.org'')]] \<and>
   rows w1 Reminders = [[(''id'', JStr ''10''), (''user_id'', JStr ''2''), (''title'', JStr ''oil'')]] \<and>
   js_get (params req_put) ''id'' = JStr ''10'' \<and>
   fst (updateReminder env0 req_put w1) =
     reply 500 [(''error'', JStr ''JSON object requested, multiple (or no) rows returned'')]"
  by (simp add: updateReminder_def user_by_uid_def select_single_def select_rows_def Let_def
      update_single_def single_def single_error_def server_error_def js_or_def js_get_def
      env0_def req_put_def w1_def matches_def order_by_def project_def payload_def logged_def merge_def)

subsection \<open>Unregistered identities\<close>





lemma select_rows_world:
  "snd (select_rows flt t cols fs ord w) = logged (Select t cols fs ord) w"
  by (simp add: select_rows_def Let_def split: option.splits)







subsection \<open>The duplicated device route\<close>

text \<open>
  C9.  The two \<^verbatim>\<open>registerDevice\<close> handlers are the same function of environment,
  request and world: the same user lookup, the same upsert on \<^verbatim>\<open>token\<close>, the same
  response.  The first one registered answers every matching request, so the gateway
  behaves as it would with either definition removed.
\<close>

theorem registerDevice_duplicate:
  "registerDevice2 = registerDevice \<and> app = dispatch routes_single \<and>
   app = dispatch (remove1 (POST, [''api'', ''registerDevice''], protected registerDevice) routes)"
proof -
  have e: "registerDevice2 = registerDevice"
    by (intro ext) (simp add: registerDevice2_def registerDevice_def)
  have a: "app = dispatch routes_single"
    by (intro ext) (simp add: app_def routes_def routes_single_def split: option.splits)
  have r: "remove1 (POST, [''api'', ''registerDevice''], protected registerDevice) routes = routes_single"
    by (simp add: routes_def routes_single_def e)
  from e a r show ?thesis by simp
qed

theorem registerDevice_duplicate_witness:
  "registerDevice2 env0 req_dev w1 = registerDevice env0 req_dev w1 \<and>
   app env0 req_dev w1 = dispatch routes_single env0 req_dev w1 \<and>
   status (fst (app env0 req_dev w1)) = 200 \<and>
   rows (snd (app env0 req_dev w1)) Devices =
     [[(''id'', JStr ''11''), (''user_id'', JStr ''1''), (''token'', JStr ''tok-1''),
       (''platform'', JStr ''android'')]]"
proof -
  have "status (fst (dispatch routes_single env0 req_dev w1)) = 200 \<and>
   rows (snd (dispatch routes_single env0 req_dev w1)) Devices =
     [[(''id'', JStr ''11''), (''user_id'', JStr ''1''), (''token'', JStr ''tok-1''),
       (''platform'', JStr ''android'')]]"
    by (simp add: routes_single_def req_dev_def protected_def verifyToken_def env0_def
        js_index_def registerDevice_def js_get_def user_by_uid_def select_single_def
        select_rows_def Let_def w1_def matches_def order_by_def project_def single_def
        upsert_single_def payload_def logged_def add_row_def show_nat.simps reply_def)
  with registerDevice_duplicate show ?thesis by simp
qed

subsection \<open>Document upload\<close>

text \<open>
  C7.  For an upload request with a file, the storage write is the first call and the
  metadata insert the second.  If the storage write fails (the service fails it, or the
  path exists already) the handler answers 500 and the storage call is the only one
  made: store and bucket are unchanged and no metadata row is inserted.  If the storage
  write succeeds and the metadata insert fails, the handler answers 500, the object
  stays in the bucket and no further call follows the insert.  If both succeed the
  object and one new metadata row are in place.
\<close>

theorem upload_two_steps:
  assumes f: "upload req = Some f"
  shows
    "(fault env (upload_call env req f) = Some e \<longrightarrow>
        uploadDocument env req w =
          (server_error e, w\<lparr>trace := trace w @ [upload_call env req f]\<rparr>)) \<and>
     (fault env (upload_call env req f) = None \<and> upload_path env req f \<in> fst ` set (bucket w) \<longrightarrow>
        uploadDocument env req w =
          (server_error exists_error, w\<lparr>trace := trace w @ [upload_call env req f]\<rparr>)) \<and>
     (fault env (upload_call env req f) = None \<and> upload_path env req f \<notin> fst ` set (bucket w) \<and>
      fault env (document_insert env req f) = Some e \<longrightarrow>
        uploadDocument env req w =
          (server_error e,
           w\<lparr>bucket := bucket w @ [(upload_path env req f, buffer f)],
             trace := trace w @ [upload_call env req f, document_insert env req f]\<rparr>)) \<and>
     (fault env (upload_call env req f) = None \<and> upload_path env req f \<notin> fst ` set (bucket w) \<and>
      fault env (document_insert env req f) = None \<longrightarrow>
        status (fst (uploadDocument env req w)) = 200 \<and>
        bucket (snd (uploadDocument env req w)) = bucket w @ [(upload_path env req f, buffer f)] \<and>
        length (rows (snd (uploadDocument env req w)) Documents) = Suc (length (rows w Documents)) \<and>
        trace (snd (uploadDocument env req w)) =
          trace w @ [upload_call env req f, document_insert env req f])"
  using f
  by (simp add: uploadDocument_def Let_def storage_upload_def insert_single_def add_row_def
      upload_call_def document_insert_def upload_path_def getPublicUrl_def js_get_def[of "[_]"]
      js_or_def logged_def reply_def)

theorem upload_two_steps_witness:
  "upload req_up = Some \<lparr>originalname = ''itv.pdf'', buffer = ''%PDF'', mimetype = ''application/pdf''\<rparr> \<and>
   status (fst (uploadDocument env_storage_down req_up w1)) = 500 \<and>
   bucket (snd (uploadDocument env_storage_down req_up w1)) = [] \<and>
   rows (snd (uploadDocument env_storage_down req_up w1)) Documents = [] \<and>
   status (fst (uploadDocument env_insert_down req_up w1)) = 500 \<and>
   bucket (snd (uploadDocument env_insert_down req_up w1)) = [(''u1/7/1234_itv.pdf'', ''%PDF'')] \<and>
   rows (snd (uploadDocument env_insert_down req_up w1)) Documents = []"
proof -
  let ?f = "\<lparr>originalname = ''itv.pdf'', buffer = ''%PDF'', mimetype = ''application/pdf''\<rparr>"
  have f: "upload req_up = Some ?f" by (simp add: req_up_def)
  have p: "upload_path env_storage_down req_up ?f = ''u1/7/1234_itv.pdf''"
     "upload_path env_insert_down req_up ?f = ''u1/7/1234_itv.pdf''"
    by (simp_all add: upload_path_def env_storage_down_def env_insert_down_def env0_def req_up_def
        js_get_def show_nat.simps)
  have a: "fault env_storage_down (upload_call env_storage_down req_up ?f)
             = Some [(''message'', JStr ''storage failed'')]"
    by (simp add: env_storage_down_def upload_call_def)
  have b: "fault env_insert_down (upload_call env_insert_down req_up ?f) = None"
    "fault env_insert_down (document_insert env_insert_down req_up ?f)
             = Some [(''message'', JStr ''insert failed'')]"
    by (simp_all add: env_insert_down_def upload_call_def document_insert_def)
  have c: "upload_path env_insert_down req_up ?f \<notin> fst ` set (bucket w1)"
    by (simp add: w1_def)
  from upload_two_steps[OF f, of env_storage_down "[(''message'', JStr ''storage failed'')]" w1]
       upload_two_steps[OF f, of env_insert_down "[(''message'', JStr ''insert failed'')]" w1]
       a b c f p
  show ?thesis by (simp add: server_error_def reply_def w1_def)
qed

subsection \<open>Registration\<close>

lemma map_of_merge:
  "map_of (merge p r) c = (case map_of p c of Some v \<Rightarrow> Some v | None \<Rightarrow> map_of r c)"
proof (cases "c \<in> fst ` set r")
  case True
  have m: "map_of (map (\<lambda>(k, v). (k, case map_of p k of Some v' \<Rightarrow> v' | None \<Rightarrow> v)) r) c =
        map_option (\<lambda>v. case map_of p c of Some v' \<Rightarrow> v' | None \<Rightarrow> v) (map_of r c)"
    by (induction r) (auto split: option.splits)
  from True obtain v where "map_of r c = Some v"
    by (metis domIff dom_map_of_conv_image_fst not_Some_eq)
  with m show ?thesis by (simp add: merge_def map_add_def split: option.splits)
next
  case False
  have m: "map_of (map (\<lambda>(k, v). (k, case map_of p k of Some v' \<Rightarrow> v' | None \<Rightarrow> v)) r) c = None"
    using False by (induction r) auto
  have n: "map_of r c = None" using False by (simp add: map_of_eq_None_iff)
  have nk: "(c, b) \<notin> set r" for b using False by force
  have q: "map_of (filter (\<lambda>(k, v). k \<notin> fst ` set r) p) c = map_of p c"
    using False by (induction p) (auto simp: nk)
  from m n q show ?thesis by (simp add: merge_def map_add_def split: option.splits)
qed

lemma matches_single: "matches [(col, k)] r = (k \<noteq> JNull \<and> k \<noteq> JUndefined \<and> map_of r col = Some k)"
  by (simp add: matches_def)

lemma filter_map_same:
  assumes "\<And>x. x \<in> set xs \<Longrightarrow> P (g x) = P x"
  shows "filter P (map g xs) = map g (filter P xs)"
  using assms by (induction xs) auto

lemma payload_defined: "map_of (payload ob) c = Some v \<Longrightarrow> v \<noteq> JUndefined"
  by (induction ob) (auto simp: payload_def split: if_splits)

lemma upsert_single_ok:
  assumes nf: "flt (Upsert t (payload ob) col) = None"
    and key: "map_of (payload ob) col = Some k" "k \<noteq> JNull"
    and noid: "map_of (payload ob) ''id'' = None"
    and uniq: "length (filter (matches [(col, k)]) (rows w t)) \<le> 1"
  shows "\<exists>r. fst (upsert_single flt t ob col w) = Inr r \<and>
             filter (matches [(col, k)]) (rows (snd (upsert_single flt t ob col w)) t) = [r] \<and>
             (\<forall>c v. map_of (payload ob) c = Some v \<longrightarrow> js_get r c = v) \<and>
             length (rows (snd (upsert_single flt t ob col w)) t) =
               (if filter (matches [(col, k)]) (rows w t) = [] then Suc (length (rows w t))
                else length (rows w t))"
proof -
  let ?p = "payload ob"
  let ?hit = "matches [(col, k)]"
  have ku: "k \<noteq> JUndefined" using payload_defined[OF key(1)] .
  have gk: "js_get ?p col = k" using key by (simp add: js_get_def)
  show ?thesis
  proof (cases "filter ?hit (rows w t)")
    case Nil
    then have nex: "\<not> list_ex ?hit (rows w t)"
      by (simp add: list_ex_iff filter_empty_conv)
    let ?r = "(''id'', JStr (show_nat (next_id w))) # ?p"
    have hr: "?hit ?r" using key ku noid by (auto simp: matches_single)
    have g: "\<forall>c v. map_of ?p c = Some v \<longrightarrow> js_get ?r c = v"
      using noid by (auto simp: js_get_def)
    have "upsert_single flt t ob col w =
            (Inr ?r, (logged (Upsert t ?p col) w)\<lparr>rows := (rows w)(t := rows w t @ [?r]),
                                                    next_id := Suc (next_id w)\<rparr>)"
      using nf nex by (simp add: upsert_single_def Let_def gk add_row_def)
    with Nil hr g show ?thesis by simp
  next
    case (Cons x xs)
    with uniq have one: "filter ?hit (rows w t) = [x]" by simp
    then have ex: "list_ex ?hit (rows w t)"
      by (metis list_ex_iff filter_empty_conv list.distinct(1))
    let ?r = "merge ?p x"
    have keep: "?hit (if ?hit y then merge ?p y else y) = ?hit y" for y
      using key by (simp add: matches_single map_of_merge)
    have fm: "filter ?hit (map (\<lambda>y. if ?hit y then merge ?p y else y) (rows w t)) = [?r]"
    proof -
      have "filter ?hit (map (\<lambda>y. if ?hit y then merge ?p y else y) (rows w t)) =
            map (\<lambda>y. if ?hit y then merge ?p y else y) (filter ?hit (rows w t))"
        by (rule filter_map_same) (simp add: keep)
      also have "\<dots> = [?r]" using one
        by (metis (mono_tags, lifting) Cons_eq_filterD list.simps(8,9))
      finally show ?thesis .
    qed
    have g: "\<forall>c v. map_of ?p c = Some v \<longrightarrow> js_get ?r c = v"
      by (simp add: js_get_def map_of_merge)
    have "upsert_single flt t ob col w =
            (Inr ?r, (logged (Upsert t ?p col) w)
                       \<lparr>rows := (rows w)(t := map (\<lambda>y. if ?hit y then merge ?p y else y) (rows w t))\<rparr>)"
      using nf ex one by (simp add: upsert_single_def Let_def gk single_def)
    with one fm g show ?thesis by simp
  qed
qed

lemma registerUser_ok:
  assumes nf: "fault env = (\<lambda>c. None)"
    and uid: "js_get (user req) ''uid'' = JStr s"
    and uniq: "length (stored_user (JStr s) w) \<le> 1"
  shows "\<exists>r. fst (registerUser env req w) = reply 200 [(''ok'', JBool True), (''user'', JObj r)] \<and>
             stored_user (JStr s) (snd (registerUser env req w)) = [r] \<and>
             js_get r ''display_name'' =
               js_or (js_or (js_get (user req) ''name'') (js_get (body req) ''displayName'')) JNull \<and>
             (js_or (js_get (user req) ''email'') (js_get (body req) ''email'') \<noteq> JUndefined \<longrightarrow>
                js_get r ''email'' = js_or (js_get (user req) ''email'') (js_get (body req) ''email'')) \<and>
             length (rows (snd (registerUser env req w)) Users) =
               (if stored_user (JStr s) w = [] then Suc (length (rows w Users))
                else length (rows w Users))"
proof -
  let ?E = "js_or (js_get (user req) ''email'') (js_get (body req) ''email'')"
  let ?D = "js_or (js_or (js_get (user req) ''name'') (js_get (body req) ''displayName'')) JNull"
  let ?ob = "[(''firebase_uid'', JStr s), (''email'', ?E), (''display_name'', ?D)]"
  have D: "?D \<noteq> JUndefined" by (auto simp: js_or_def)
  have k: "map_of (payload ?ob) ''firebase_uid'' = Some (JStr s)" by (simp add: payload_def)
  have i: "map_of (payload ?ob) ''id'' = None" by (simp add: payload_def)
  have d: "map_of (payload ?ob) ''display_name'' = Some ?D" using D by (simp add: payload_def)
  have e: "?E \<noteq> JUndefined \<Longrightarrow> map_of (payload ?ob) ''email'' = Some ?E" by (simp add: payload_def)
  have f: "fault env (Upsert Users (payload ?ob) ''firebase_uid'') = None" using nf by simp
  have u: "length (filter (matches [(''firebase_uid'', JStr s)]) (rows w Users)) \<le> 1"
    using uniq by (simp add: stored_user_def)
  have n: "JStr s \<noteq> JNull" by simp
  from upsert_single_ok[of "fault env" Users ?ob "''firebase_uid''" "JStr s" w, OF f k n i u]
  obtain r where
    r: "fst (upsert_single (fault env) Users ?ob ''firebase_uid'' w) = Inr r"
       "filter (matches [(''firebase_uid'', JStr s)])
          (rows (snd (upsert_single (fault env) Users ?ob ''firebase_uid'' w)) Users) = [r]"
       "\<forall>c v. map_of (payload ?ob) c = Some v \<longrightarrow> js_get r c = v"
       "length (rows (snd (upsert_single (fault env) Users ?ob ''firebase_uid'' w)) Users) =
               (if filter (matches [(''firebase_uid'', JStr s)]) (rows w Users) = []
                then Suc (length (rows w Users)) else length (rows w Users))"
    by auto
  have reg: "registerUser env req w =
          (reply 200 [(''ok'', JBool True), (''user'', JObj r)],
           snd (upsert_single (fault env) Users ?ob ''firebase_uid'' w))"
    using r(1) by (simp add: registerUser_def Let_def uid case_prod_beta)
  from r(3) d e have "js_get r ''display_name'' = ?D"
    "?E \<noteq> JUndefined \<longrightarrow> js_get r ''email'' = ?E" by blast+
  with reg r(2,4) show ?thesis by (simp add: stored_user_def)
qed

text \<open>
  C10.  When the store answers and at most one user row carries the caller's identity,
  registration leaves exactly one such row.  Its email is the token's email claim
  whenever that claim is present (truthy), whatever the body says, and the body's email
  only when the claim is missing; its display name is the token's name claim, else the
  body's \<^verbatim>\<open>displayName\<close>, else null.
\<close>

theorem registerUser_claims_first:
  assumes nf: "fault env = (\<lambda>c. None)"
    and uid: "js_get (user req) ''uid'' = JStr s"
    and uniq: "length (stored_user (JStr s) w) \<le> 1"
  shows "\<exists>r. fst (registerUser env req w) = reply 200 [(''ok'', JBool True), (''user'', JObj r)] \<and>
             stored_user (JStr s) (snd (registerUser env req w)) = [r] \<and>
             (truthy (js_get (user req) ''email'') \<longrightarrow>
                js_get r ''email'' = js_get (user req) ''email'') \<and>
             (\<not> truthy (js_get (user req) ''email'') \<and> js_get (body req) ''email'' \<noteq> JUndefined \<longrightarrow>
                js_get r ''email'' = js_get (body req) ''email'') \<and>
             js_get r ''display_name'' =
               (if truthy (js_get (user req) ''name'') then js_get (user req) ''name''
                else if truthy (js_get (body req) ''displayName'') then js_get (body req) ''displayName''
                else JNull)"
proof -
  from registerUser_ok[OF assms] obtain r where
    r: "fst (registerUser env req w) = reply 200 [(''ok'', JBool True), (''user'', JObj r)]"
       "stored_user (JStr s) (snd (registerUser env req w)) = [r]"
       "js_get r ''display_name'' =
               js_or (js_or (js_get (user req) ''name'') (js_get (body req) ''displayName'')) JNull"
       "js_or (js_get (user req) ''email'') (js_get (body req) ''email'') \<noteq> JUndefined \<longrightarrow>
                js_get r ''email'' = js_or (js_get (user req) ''email'') (js_get (body req) ''email'')"
    by blast
  have t: "truthy v \<Longrightarrow> v \<noteq> JUndefined" for v by auto
  from r(3) have d: "js_get r ''display_name'' =
               (if truthy (js_get (user req) ''name'') then js_get (user req) ''name''
                else if truthy (js_get (body req) ''displayName'') then js_get (body req) ''displayName''
                else JNull)" by (simp add: js_or_def)
  from r(4) have e1: "truthy (js_get (user req) ''email'') \<longrightarrow>
                js_get r ''email'' = js_get (user req) ''email''"
    using t by (auto simp: js_or_def)
  from r(4) have e2: "\<not> truthy (js_get (user req) ''email'') \<and> js_get (body req) ''email'' \<noteq> JUndefined \<longrightarrow>
                js_get r ''email'' = js_get (body req) ''email''"
    by (auto simp: js_or_def)
  from r(1,2) d e1 e2 show ?thesis by blast
qed

theorem registerUser_claims_first_witness:
  "fault env0 = (\<lambda>c. None) \<and> js_get (user req_reg1) ''uid'' = JStr ''u1'' \<and>
   length (stored_user (JStr ''u1'') w0) \<le> 1 \<and>
   js_get (body req_reg1) ''email'' = JStr ''evil@x.org'' \<and>
   rows (snd (registerUser env0 req_reg1 w0)) Users =
     [[(''id'', JStr ''1''), (''firebase_uid'', JStr ''u1''), (''email'', JStr ''a@x.org''),
       (''display_name'', JStr ''Ann'')]]"
proof -
  have a: "fault env0 = (\<lambda>c. None)" by (simp add: env0_def)
  have b: "js_get (user req_reg1) ''uid'' = JStr ''u1''" by (simp add: req_reg1_def js_get_def)
  have c: "length (stored_user (JStr ''u1'') w0) \<le> 1" by (simp add: stored_user_def w0_def)
  have d: "rows (snd (registerUser env0 req_reg1 w0)) Users =
     [[(''id'', JStr ''1''), (''firebase_uid'', JStr ''u1''), (''email'', JStr ''a@x.org''),
       (''display_name'', JStr ''Ann'')]]"
    using registerUser_claims_first[OF a b c]
    by (simp add: registerUser_def upsert_single_def Let_def payload_def js_or_def js_get_def
        req_reg1_def env0_def w0_def matches_def add_row_def logged_def show_nat.simps)
  from a b c d show ?thesis by (simp add: req_reg1_def js_get_def)
qed

text \<open>
  C6.  Two registrations of the same external identity, both answered by the store,
  starting from a users table with at most one row for that identity: afterwards exactly
  one row carries the identity, the second call added no row, and that row holds the
  display name of the second call and, when the second call has an email, its email.
\<close>

theorem registerUser_twice:
  assumes nf: "fault env1 = (\<lambda>c. None)" "fault env2 = (\<lambda>c. None)"
    and uid: "js_get (user req1) ''uid'' = JStr s" "js_get (user req2) ''uid'' = JStr s"
    and uniq: "length (stored_user (JStr s) w) \<le> 1"
  shows "\<exists>r. stored_user (JStr s) (snd (registerUser env2 req2 (snd (registerUser env1 req1 w)))) = [r] \<and>
             length (rows (snd (registerUser env2 req2 (snd (registerUser env1 req1 w)))) Users) =
               length (rows (snd (registerUser env1 req1 w)) Users) \<and>
             fst (registerUser env2 req2 (snd (registerUser env1 req1 w))) =
               reply 200 [(''ok'', JBool True), (''user'', JObj r)] \<and>
             js_get r ''display_name'' =
               js_or (js_or (js_get (user req2) ''name'') (js_get (body req2) ''displayName'')) JNull \<and>
             (js_or (js_get (user req2) ''email'') (js_get (body req2) ''email'') \<noteq> JUndefined \<longrightarrow>
                js_get r ''email'' = js_or (js_get (user req2) ''email'') (js_get (body req2) ''email''))"
proof -
  let ?w1 = "snd (registerUser env1 req1 w)"
  from registerUser_ok[OF nf(1) uid(1) uniq] obtain r1 where
    r1: "stored_user (JStr s) ?w1 = [r1]" by blast
  then have u1: "length (stored_user (JStr s) ?w1) \<le> 1" by simp
  from registerUser_ok[OF nf(2) uid(2) u1] r1 show ?thesis by auto
qed

theorem registerUser_twice_witness:
  "fault env0 = (\<lambda>c. None) \<and> js_get (user req_reg1) ''uid'' = JStr ''u1'' \<and>
   js_get (user req_reg2) ''uid'' = JStr ''u1'' \<and> length (stored_user (JStr ''u1'') w0) \<le> 1 \<and>
   rows (snd (registerUser env0 req_reg2 (snd (registerUser env0 req_reg1 w0)))) Users =
     [[(''id'', JStr ''1''), (''firebase_uid'', JStr ''u1''), (''email'', JStr ''new@x.org''),
       (''display_name'', JStr ''Ann B'')]]"
proof -
  have a: "fault env0 = (\<lambda>c. None)" by (simp add: env0_def)
  have b: "js_get (user req_reg1) ''uid'' = JStr ''u1''" "js_get (user req_reg2) ''uid'' = JStr ''u1''"
    by (simp_all add: req_reg1_def req_reg2_def js_get_def)
  have c: "length (stored_user (JStr ''u1'') w0) \<le> 1" by (simp add: stored_user_def w0_def)
  have d: "rows (snd (registerUser env0 req_reg2 (snd (registerUser env0 req_reg1 w0)))) Users =
     [[(''id'', JStr ''1''), (''firebase_uid'', JStr ''u1''), (''email'', JStr ''new@x.org''),
       (''display_name'', JStr ''Ann B'')]]"
    using registerUser_twice[OF a a b c]
    by (simp add: registerUser_def upsert_single_def Let_def payload_def js_or_def js_get_def
        req_reg1_def req_reg2_def env0_def w0_def matches_def add_row_def logged_def
        show_nat.simps merge_def single_def)
  from a b c d show ?thesis by simp
qed

subsection \<open>The notifier\<close>

lemma ceil_div_iff:
  assumes "0 < (b::int)"
  shows "(ceil_div a b = k) = ((k - 1) * b < a \<and> a \<le> k * b)"
proof
  assume "ceil_div a b = k"
  then have q: "(- a) div b = - k" by (simp add: ceil_div_def)
  have d: "- a = b * ((- a) div b) + (- a) mod b" by simp
  have m: "0 \<le> (- a) mod b" "(- a) mod b < b" using assms by simp_all
  from d q have "- a = b * (- k) + (- a) mod b" by simp
  with m show "(k - 1) * b < a \<and> a \<le> k * b" by (simp add: algebra_simps)
next
  assume h: "(k - 1) * b < a \<and> a \<le> k * b"
  have "(- a) div b = - k"
  proof (rule int_div_pos_eq[where r = "k * b - a"])
    show "- a = b * (- k) + (k * b - a)" by (simp add: algebra_simps)
    show "0 \<le> k * b - a" using h by simp
    show "k * b - a < b" using h by (simp add: algebra_simps)
  qed
  then show "ceil_div a b = k" by (simp add: ceil_div_def)
qed

lemma day_ms_pos: "0 < day_ms"
  by (simp add: day_ms_def)

lemma ceil_div_day: "(ceil_div a day_ms = k) = ((k - 1) * day_ms < a \<and> a \<le> k * day_ms)"
  by (rule ceil_div_iff[OF day_ms_pos])


text \<open>
  On calendar days.  An expiry date without a time of day is parsed as that day's UTC
  midnight, while the start of today is local midnight.  For a date \<open>k\<close> days after the
  local date, \<open>diffDays\<close> is \<open>k\<close> when local time is UTC or behind it, and \<open>k + 1\<close>
  when it is ahead of UTC.
\<close>

lemma diffDays_calendar:
  assumes ex: "date_ms (date_parse env) (js_get d ''expiry_date'') =
                 Some (((clock env + tz_offset env) div day_ms + k) * day_ms)"
  shows "(- day_ms < tz_offset env \<and> tz_offset env \<le> 0 \<longrightarrow> diffDays env d = Some k) \<and>
         (0 < tz_offset env \<and> tz_offset env \<le> day_ms \<longrightarrow> diffDays env d = Some (k + 1))"
proof -
  let ?L = "(clock env + tz_offset env) div day_ms"
  have e: "(?L + k) * day_ms - startOfToday env = k * day_ms + tz_offset env"
    by (simp add: startOfToday_def algebra_simps)
  have d: "diffDays env d = Some (ceil_div (k * day_ms + tz_offset env) day_ms)"
    using ex e by (simp add: diffDays_def)
  have a: "- day_ms < tz_offset env \<and> tz_offset env \<le> 0 \<longrightarrow>
             ceil_div (k * day_ms + tz_offset env) day_ms = k"
    by (simp add: ceil_div_day algebra_simps)
  have b: "0 < tz_offset env \<and> tz_offset env \<le> day_ms \<longrightarrow>
             ceil_div (k * day_ms + tz_offset env) day_ms = k + 1"
    by (simp add: ceil_div_day algebra_simps)
  from d a b show ?thesis by simp
qed














subsection \<open>Internal and external identity\<close>

lemma single_Inr: "single rs = Inr r \<Longrightarrow> rs = [r]"
  by (auto simp: single_def split: list.splits)

lemma user_by_uid_cases:
  assumes "user_by_uid env uid w = (r, w')"
  shows "w' = logged (user_lookup uid) w \<and>
         (\<forall>usr. r = Inr usr \<longrightarrow>
            (\<exists>u\<in>set (rows w Users). matches [(''firebase_uid'', uid)] u \<and> usr = project [''id''] u))"
proof -
  have w: "w' = logged (user_lookup uid) w"
    using assms user_by_uid_trace[of env uid w] by (simp add: user_lookup_def)
  have "\<exists>u\<in>set (rows w Users). matches [(''firebase_uid'', uid)] u \<and> usr = project [''id''] u"
    if "r = Inr usr" for usr
  proof -
    from assms that have
      "single (map (project [''id'']) (filter (matches [(''firebase_uid'', uid)]) (rows w Users))) = Inr usr"
      by (auto simp: user_by_uid_def select_single_def select_rows_def Let_def order_by_def
          split: option.splits)
    from single_Inr[OF this] obtain u where
      f: "filter (matches [(''firebase_uid'', uid)]) (rows w Users) = [u]" and p: "usr = project [''id''] u"
      by auto
    have "u \<in> set (filter (matches [(''firebase_uid'', uid)]) (rows w Users))"
      by (simp add: f)
    then have "u \<in> set (rows w Users) \<and> matches [(''firebase_uid'', uid)] u" by simp
    with p show ?thesis by blast
  qed
  with w show ?thesis by blast
qed

lemma insert_single_trace:
  "trace (snd (insert_single flt t ob w)) = trace w @ [Insert t (payload ob)]"
  by (simp add: insert_single_def add_row_def Let_def split: option.splits)

lemma upsert_single_trace:
  "trace (snd (upsert_single flt t ob col w)) = trace w @ [Upsert t (payload ob) col]"
  by (simp add: upsert_single_def add_row_def Let_def split: option.splits sum.splits)

lemma update_single_trace:
  "trace (snd (update_single flt t ob fs w)) = trace w @ [Update t (payload ob) fs]"
  by (simp add: update_single_def Let_def split: option.splits sum.splits)

lemma delete_rows_trace:
  "trace (snd (delete_rows flt t fs w)) = trace w @ [Delete t fs]"
  by (simp add: delete_rows_def Let_def split: option.splits)

lemma select_rows_trace:
  "trace (snd (select_rows flt t cols fs ord w)) = trace w @ [Select t cols fs ord]"
  by (simp add: select_rows_world)

lemma payload_keeps: "v \<noteq> JUndefined \<Longrightarrow> (k, v) \<in> set ob \<Longrightarrow> (k, v) \<in> set (payload ob)"
  by (simp add: payload_def)

lemma payload_subset: "(k, v) \<in> set (payload ob) \<Longrightarrow> (k, v) \<in> set ob"
  by (simp add: payload_def)

lemma createVehicle_via:
  assumes "users_have_ids w"
  shows "via_internal_id createVehicle env req w"
proof -
  let ?uid = "js_get (user req) ''uid''"
  obtain r w' where ub: "user_by_uid env ?uid w = (r, w')" by (cases "user_by_uid env ?uid w")
  note c = user_by_uid_cases[OF ub]
  show ?thesis
  proof (cases r)
    case (Inl e)
    with ub c show ?thesis
      by (simp add: via_internal_id_def new_calls_def createVehicle_def Let_def
          resource_call_def user_lookup_def)
  next
    case (Inr usr)
    with c obtain u where u: "u \<in> set (rows w Users)" "matches [(''firebase_uid'', ?uid)] u"
      "usr = project [''id''] u" by blast
    have id: "js_get usr ''id'' = js_get u ''id''" "js_get u ''id'' \<noteq> JUndefined"
      "js_get u ''firebase_uid'' = ?uid"
      using u assms matches_js_get[OF u(2)] by (auto simp: users_have_ids_def list_all_iff)
    show ?thesis using ub c Inr u(1) id
      by (auto simp: via_internal_id_def new_calls_def createVehicle_def Let_def case_prod_beta
          resource_call_def user_lookup_def insert_single_trace list_ex_iff
          intro!: payload_keeps dest!: payload_subset split: sum.splits)
  qed
qed

lemma getVehicles_via:
  assumes "users_have_ids w"
  shows "via_internal_id getVehicles env req w"
proof -
  let ?uid = "js_get (user req) ''uid''"
  obtain r w' where ub: "user_by_uid env ?uid w = (r, w')" by (cases "user_by_uid env ?uid w")
  note c = user_by_uid_cases[OF ub]
  show ?thesis
  proof (cases r)
    case (Inl e)
    with ub c show ?thesis
      by (simp add: via_internal_id_def new_calls_def getVehicles_def Let_def
          resource_call_def user_lookup_def)
  next
    case (Inr usr)
    with c obtain u where u: "u \<in> set (rows w Users)" "matches [(''firebase_uid'', ?uid)] u"
      "usr = project [''id''] u" by blast
    have id: "js_get usr ''id'' = js_get u ''id''" "js_get u ''id'' \<noteq> JUndefined"
      "js_get u ''firebase_uid'' = ?uid"
      using u assms matches_js_get[OF u(2)] by (auto simp: users_have_ids_def list_all_iff)
    show ?thesis using ub c Inr u(1) id
      by (auto simp: via_internal_id_def new_calls_def getVehicles_def Let_def case_prod_beta
          resource_call_def user_lookup_def select_rows_trace list_ex_iff
          intro!: payload_keeps dest!: payload_subset split: sum.splits)
  qed
qed

lemma registerDevice_via:
  assumes "users_have_ids w"
  shows "via_internal_id registerDevice env req w"
proof -
  let ?uid = "js_get (user req) ''uid''"
  obtain r w' where ub: "user_by_uid env ?uid w = (r, w')" by (cases "user_by_uid env ?uid w")
  note c = user_by_uid_cases[OF ub]
  show ?thesis
  proof (cases r)
    case (Inl e)
    with ub c show ?thesis
      by (simp add: via_internal_id_def new_calls_def registerDevice_def Let_def
          resource_call_def user_lookup_def)
  next
    case (Inr usr)
    with c obtain u where u: "u \<in> set (rows w Users)" "matches [(''firebase_uid'', ?uid)] u"
      "usr = project [''id''] u" by blast
    have id: "js_get usr ''id'' = js_get u ''id''" "js_get u ''id'' \<noteq> JUndefined"
      "js_get u ''firebase_uid'' = ?uid"
      using u assms matches_js_get[OF u(2)] by (auto simp: users_have_ids_def list_all_iff)
    show ?thesis using ub c Inr u(1) id
      by (auto simp: via_internal_id_def new_calls_def registerDevice_def Let_def case_prod_beta
          resource_call_def user_lookup_def upsert_single_trace list_ex_iff
          intro!: payload_keeps dest!: payload_subset split: sum.splits)
  qed
qed

lemma registerDevice2_via:
  assumes "users_have_ids w"
  shows "via_internal_id registerDevice2 env req w"
proof -
  let ?uid = "js_get (user req) ''uid''"
  obtain r w' where ub: "user_by_uid env ?uid w = (r, w')" by (cases "user_by_uid env ?uid w")
  note c = user_by_uid_cases[OF ub]
  show ?thesis
  proof (cases r)
    case (Inl e)
    with ub c show ?thesis
      by (simp add: via_internal_id_def new_calls_def registerDevice2_def Let_def
          resource_call_def user_lookup_def)
  next
    case (Inr usr)
    with c obtain u where u: "u \<in> set (rows w Users)" "matches [(''firebase_uid'', ?uid)] u"
      "usr = project [''id''] u" by blast
    have id: "js_get usr ''id'' = js_get u ''id''" "js_get u ''id'' \<noteq> JUndefined"
      "js_get u ''firebase_uid'' = ?uid"
      using u assms matches_js_get[OF u(2)] by (auto simp: users_have_ids_def list_all_iff)
    show ?thesis using ub c Inr u(1) id
      by (auto simp: via_internal_id_def new_calls_def registerDevice2_def Let_def case_prod_beta
          resource_call_def user_lookup_def upsert_single_trace list_ex_iff
          intro!: payload_keeps dest!: payload_subset split: sum.splits)
  qed
qed

lemma getReminders_via:
  assumes "users_have_ids w"
  shows "via_internal_id getReminders env req w"
proof -
  let ?uid = "js_get (user req) ''uid''"
  obtain r w' where ub: "user_by_uid env ?uid w = (r, w')" by (cases "user_by_uid env ?uid w")
  note c = user_by_uid_cases[OF ub]
  show ?thesis
  proof (cases r)
    case (Inl e)
    with ub c show ?thesis
      by (simp add: via_internal_id_def new_calls_def getReminders_def Let_def
          resource_call_def user_lookup_def)
  next
    case (Inr usr)
    with c obtain u where u: "u \<in> set (rows w Users)" "matches [(''firebase_uid'', ?uid)] u"
      "usr = project [''id''] u" by blast
    have id: "js_get usr ''id'' = js_get u ''id''" "js_get u ''id'' \<noteq> JUndefined"
      "js_get u ''firebase_uid'' = ?uid"
      using u assms matches_js_get[OF u(2)] by (auto simp: users_have_ids_def list_all_iff)
    show ?thesis using ub c Inr u(1) id
      by (auto simp: via_internal_id_def new_calls_def getReminders_def Let_def case_prod_beta
          resource_call_def user_lookup_def select_rows_trace list_ex_iff
          intro!: payload_keeps dest!: payload_subset split: sum.splits)
  qed
qed

lemma createReminder_via:
  assumes "users_have_ids w"
  shows "via_internal_id createReminder env req w"
proof -
  let ?uid = "js_get (user req) ''uid''"
  obtain r w' where ub: "user_by_uid env ?uid w = (r, w')" by (cases "user_by_uid env ?uid w")
  note c = user_by_uid_cases[OF ub]
  show ?thesis
  proof (cases r)
    case (Inl e)
    with ub c show ?thesis
      by (simp add: via_internal_id_def new_calls_def createReminder_def Let_def
          resource_call_def user_lookup_def)
  next
    case (Inr usr)
    with c obtain u where u: "u \<in> set (rows w Users)" "matches [(''firebase_uid'', ?uid)] u"
      "usr = project [''id''] u" by blast
    have id: "js_get usr ''id'' = js_get u ''id''" "js_get u ''id'' \<noteq> JUndefined"
      "js_get u ''firebase_uid'' = ?uid"
      using u assms matches_js_get[OF u(2)] by (auto simp: users_have_ids_def list_all_iff)
    show ?thesis using ub c Inr u(1) id
      by (auto simp: via_internal_id_def new_calls_def createReminder_def Let_def case_prod_beta
          resource_call_def user_lookup_def insert_single_trace list_ex_iff
          intro!: payload_keeps dest!: payload_subset split: sum.splits)
  qed
qed

lemma updateReminder_via:
  assumes "users_have_ids w"
  shows "via_internal_id updateReminder env req w"
proof -
  let ?uid = "js_get (user req) ''uid''"
  obtain r w' where ub: "user_by_uid env ?uid w = (r, w')" by (cases "user_by_uid env ?uid w")
  note c = user_by_uid_cases[OF ub]
  show ?thesis
  proof (cases r)
    case (Inl e)
    with ub c show ?thesis
      by (simp add: via_internal_id_def new_calls_def updateReminder_def Let_def
          resource_call_def user_lookup_def)
  next
    case (Inr usr)
    with c obtain u where u: "u \<in> set (rows w Users)" "matches [(''firebase_uid'', ?uid)] u"
      "usr = project [''id''] u" by blast
    have id: "js_get usr ''id'' = js_get u ''id''" "js_get u ''id'' \<noteq> JUndefined"
      "js_get u ''firebase_uid'' = ?uid"
      using u assms matches_js_get[OF u(2)] by (auto simp: users_have_ids_def list_all_iff)
    show ?thesis using ub c Inr u(1) id
      by (auto simp: via_internal_id_def new_calls_def updateReminder_def Let_def case_prod_beta
          resource_call_def user_lookup_def update_single_trace list_ex_iff
          intro!: payload_keeps dest!: payload_subset split: sum.splits)
  qed
qed

lemma deleteReminder_via:
  assumes "users_have_ids w"
  shows "via_internal_id deleteReminder env req w"
proof -
  let ?uid = "js_get (user req) ''uid''"
  obtain r w' where ub: "user_by_uid env ?uid w = (r, w')" by (cases "user_by_uid env ?uid w")
  note c = user_by_uid_cases[OF ub]
  show ?thesis
  proof (cases r)
    case (Inl e)
    with ub c show ?thesis
      by (simp add: via_internal_id_def new_calls_def deleteReminder_def Let_def
          resource_call_def user_lookup_def)
  next
    case (Inr usr)
    with c obtain u where u: "u \<in> set (rows w Users)" "matches [(''firebase_uid'', ?uid)] u"
      "usr = project [''id''] u" by blast
    have id: "js_get usr ''id'' = js_get u ''id''" "js_get u ''id'' \<noteq> JUndefined"
      "js_get u ''firebase_uid'' = ?uid"
      using u assms matches_js_get[OF u(2)] by (auto simp: users_have_ids_def list_all_iff)
    show ?thesis using ub c Inr u(1) id
      by (auto simp: via_internal_id_def new_calls_def deleteReminder_def Let_def case_prod_beta
          resource_call_def user_lookup_def delete_rows_trace list_ex_iff
          intro!: payload_keeps dest!: payload_subset split: sum.splits)
  qed
qed

text \<open>
  C4, as amended.  In the later revision the handlers that create and list vehicles,
  register a device, and list, create, update and delete reminders reach their tables
  only through the caller's internal id: the first call of a run is the lookup of the
  user row by external identity, and every call on the vehicles, devices or reminders
  table writes or filters \<^verbatim>\<open>user_id\<close> with the id of such a row and never names
  \<^verbatim>\<open>firebase_uid\<close>.
\<close>

theorem resources_via_internal_id:
  assumes "users_have_ids w" and "h \<in> set user_scoped_handlers"
  shows "via_internal_id h env req w"
proof -
  consider "h = createVehicle" | "h = getVehicles" | "h = registerDevice" | "h = registerDevice2"
    | "h = getReminders" | "h = createReminder" | "h = updateReminder" | "h = deleteReminder"
    using assms(2) by (auto simp: user_scoped_handlers_def)
  then show ?thesis
  proof cases
    case 1 then show ?thesis using createVehicle_via[OF assms(1)] by simp
  next
    case 2 then show ?thesis using getVehicles_via[OF assms(1)] by simp
  next
    case 3 then show ?thesis using registerDevice_via[OF assms(1)] by simp
  next
    case 4 then show ?thesis using registerDevice2_via[OF assms(1)] by simp
  next
    case 5 then show ?thesis using getReminders_via[OF assms(1)] by simp
  next
    case 6 then show ?thesis using createReminder_via[OF assms(1)] by simp
  next
    case 7 then show ?thesis using updateReminder_via[OF assms(1)] by simp
  next
    case 8 then show ?thesis using deleteReminder_via[OF assms(1)] by simp
  qed
qed

theorem resources_via_internal_id_witness:
  "users_have_ids w1 \<and> createVehicle \<in> set user_scoped_handlers \<and>
   via_internal_id createVehicle env0 req_post w1 \<and>
   new_calls createVehicle env0 req_post w1 =
     [user_lookup (JStr ''u1''),
      Insert Vehicles [(''user_id'', JStr ''1''), (''make'', JStr ''Seat''), (''year'', JNum 2020)]]"
proof -
  have a: "users_have_ids w1" by (simp add: users_have_ids_def w1_def js_get_def)
  have b: "createVehicle \<in> set user_scoped_handlers" by (simp add: user_scoped_handlers_def)
  have c: "new_calls createVehicle env0 req_post w1 =
     [user_lookup (JStr ''u1''),
      Insert Vehicles [(''user_id'', JStr ''1''), (''make'', JStr ''Seat''), (''year'', JNum 2020)]]"
    by (simp add: new_calls_def createVehicle_def user_by_uid_def select_single_def select_rows_def
        Let_def order_by_def single_def matches_def project_def insert_single_def add_row_def
        payload_def logged_def js_get_def env0_def req_post_def w1_def user_lookup_def)
  from resources_via_internal_id[OF a b, of env0 req_post] a b c show ?thesis by simp
qed

text \<open>
  The two document handlers of the same revision make no user lookup: they reach the
  documents table by the vehicle id of the URL alone.
\<close>

theorem documents_without_lookup_counterexample:
  "new_calls listDocuments env0 req_docs w1 =
     [Select Documents [''*''] [(''vehicle_id'', JStr ''7'')] (Some ''expiry_date'')] \<and>
   \<not> via_internal_id listDocuments env0 req_docs w1 \<and>
   new_calls uploadDocument env0 req_up w1 =
     [upload_call env0 req_up \<lparr>originalname = ''itv.pdf'', buffer = ''%PDF'', mimetype = ''application/pdf''\<rparr>,
      document_insert env0 req_up \<lparr>originalname = ''itv.pdf'', buffer = ''%PDF'', mimetype = ''application/pdf''\<rparr>] \<and>
   \<not> via_internal_id uploadDocument env0 req_up w1"
proof -
  have a: "new_calls listDocuments env0 req_docs w1 =
     [Select Documents [''*''] [(''vehicle_id'', JStr ''7'')] (Some ''expiry_date'')]"
    by (simp add: new_calls_def listDocuments_def select_rows_def Let_def logged_def js_get_def
        env0_def req_docs_def w1_def)
  have b: "new_calls uploadDocument env0 req_up w1 =
     [upload_call env0 req_up \<lparr>originalname = ''itv.pdf'', buffer = ''%PDF'', mimetype = ''application/pdf''\<rparr>,
      document_insert env0 req_up \<lparr>originalname = ''itv.pdf'', buffer = ''%PDF'', mimetype = ''application/pdf''\<rparr>]"
    by (simp add: new_calls_def uploadDocument_def storage_upload_def insert_single_def add_row_def
        Let_def logged_def js_get_def js_or_def getPublicUrl_def upload_call_def document_insert_def
        upload_path_def env0_def req_up_def w1_def)
  have c: "\<not> via_internal_id listDocuments env0 req_docs w1"
    by (simp add: via_internal_id_def a Let_def resource_call_def)
  have d: "\<not> via_internal_id uploadDocument env0 req_up w1"
    by (simp add: via_internal_id_def b Let_def resource_call_def upload_call_def document_insert_def
        user_lookup_def)
  from a b c d show ?thesis by simp
qed

end
